theory Spec2Isabelle
  imports Complex_Main "HOL-Library.Word" "HOL-Library.FSet" "HOL-Library.Finite_Map"
begin

section \<open>Conventions\<close>

text \<open>
  A shallow embedding of the tensor store: the tensor value (tensor.go), the storage
  engine and its in-memory index (storage.go), the query parser (parser.go) and the
  executor's CREATE and INSERT paths.

  Go's \<open>int\<close> has 64 bits and its arithmetic wraps around. The model computes in the
  unbounded \<open>int\<close> and writes the wrap-around out (\<open>wrapInt\<close>) where the code multiplies,
  adds or subtracts dimensions, strides, ranges and the counts made of them: these are
  the numbers a query or a metadata file gives, and their products leave the range.
  \<open>strconv.Atoi\<close> and \<open>strconv.ParseInt\<close> reject values outside the range: the range is
  written out there. A slice is a list; where the code tells a nil slice from an empty
  one, the model uses an option. A run-time panic (index out of range, nil dereference,
  \<open>make\<close> with a negative length) is the error value \<open>Panic\<close>. Memory is not bounded: \<open>make\<close>
  with a length that is not negative gives the slice.
\<close>

definition wrapInt :: "int \<Rightarrow> int" where
  "wrapInt x = (x + 2 ^ 63) mod 2 ^ 64 - 2 ^ 63"

section \<open>Errors\<close>

datatype numError = ErrSyntax | ErrRange

datatype error =
    UnsupportedDataTypeString string
  | TypeParameterMismatch string string
  | NegativeDimension
  | DataSizeMismatch nat int
  | SliceFromEmptyTensor
  | RangesLengthMismatch nat nat
  | ShapeDimensionOutOfBounds
  | InvalidSliceRange int int nat int
  | InconsistentScalarState
  | SourceOffsetOutOfBounds int nat
  | NonEmptySliceFromEmptyTensor
  | InferenceRangesLengthMismatch nat nat string
  | FailedToGetSlice string error
  | Panic
  | ReadMetadataFailed string
  | InvalidMetadataFormat string string
  | InvalidShapeInMetadata string error
  | UnsupportedDataTypeInMetadata string error
  | InvalidStridesInMetadata string error
  | IncompleteMetadata string
  | EmptyDimensionPart string
  | ErrorParsingInt string string numError
  | SaveTypeMismatch string string
  | CannotSaveTensor string error
  | TruncateFailed string string
  | SaveSizeMismatch string int nat
  | TensorAlreadyExists string
  | ErrorCheckingExistingTensor string error
  | UnsupportedCreateDataType string
  | TensorNotFoundForInsert string error
  | StringDataCountMismatch nat string "int list" int
  | ErrorParsingLiteral string string numError
  | UnsupportedInsertDataType string string
  | RawDataElementSize error
  | RawDataZeroElementSize string
  | RawDataNotMultiple nat int string
  | RawDataCountMismatch int string "int list" int

section \<open>Numeric kinds (tensor.go)\<close>

definition DataTypeFloat32 :: string where "DataTypeFloat32 = ''float32''"
definition DataTypeFloat64 :: string where "DataTypeFloat64 = ''float64''"
definition DataTypeInt32 :: string where "DataTypeInt32 = ''int32''"
definition DataTypeInt64 :: string where "DataTypeInt64 = ''int64''"

definition GetElementSize :: "string \<Rightarrow> error + int" where
  "GetElementSize dataType =
     (if dataType = DataTypeFloat32 then Inr 4
      else if dataType = DataTypeFloat64 then Inr 8
      else if dataType = DataTypeInt32 then Inr 4
      else if dataType = DataTypeInt64 then Inr 8
      else Inl (UnsupportedDataTypeString dataType))"

text \<open>The type parameter \<open>T\<close> of the generic functions is passed as a value.\<close>

datatype numeric = TFloat32 | TFloat64 | TInt32 | TInt64

fun GetDataTypeString :: "numeric \<Rightarrow> string" where
  "GetDataTypeString TFloat32 = DataTypeFloat32"
| "GetDataTypeString TFloat64 = DataTypeFloat64"
| "GetDataTypeString TInt32 = DataTypeInt32"
| "GetDataTypeString TInt64 = DataTypeInt64"

section \<open>Tensor values (tensor.go)\<close>

record TensorMetadata =
  Name :: string
  Shape :: "int list"
  DataType :: string
  Strides :: "int list"

record 'a Tensor = TensorMetadata +
  Data :: "'a list"

record BatchInfo =
  BatchSize :: int
  NumBatches :: int
  CurrentBatchIndex :: int

record 'a TensorDataWithMetadata = "'a Tensor" +
  NumDimensions :: int
  TotalElements :: int
  DataSizeBytes :: int
  BatchInfo :: "BatchInfo option"

text \<open>
  The loop that multiplies the dimensions and stops at the first zero one:
  it returns the running product and the flag \<open>hasZeroDim\<close> as they stand after the loop.
\<close>

fun zeroDimLoop :: "int \<Rightarrow> int list \<Rightarrow> int \<times> bool" where
  "zeroDimLoop acc [] = (acc, False)"
| "zeroDimLoop acc (d # ds) =
     (if d = 0 then (acc, True) else zeroDimLoop (wrapInt (acc * d)) ds)"

text \<open>\<open>getTotalElements\<close> and \<open>tNilaiTotalElemen\<close>: the same loop, returning 0 at a zero dimension.\<close>

fun totalLoop :: "int \<Rightarrow> int list \<Rightarrow> int" where
  "totalLoop acc [] = acc"
| "totalLoop acc (d # ds) = (if d = 0 then 0 else totalLoop (wrapInt (acc * d)) ds)"

definition tNilaiTotalElemen :: "int list \<Rightarrow> int" where
  "tNilaiTotalElemen shape = (if length shape = 0 then 1 else totalLoop 1 shape)"

definition getTotalElements :: "('a, 'b) Tensor_scheme \<Rightarrow> int" where
  "getTotalElements t = (if length (Shape t) = 0 then 1 else totalLoop 1 (Shape t))"

text \<open>
  The stride loop \<open>strides[n-1] = 1; for i := n-2 .. 0\<close>, for a shape of rank at least 1:
  the stride of a dimension is computed from the stride and the size of the next one.
\<close>

fun stridesLoop :: "int list \<Rightarrow> int list" where
  "stridesLoop [] = []"
| "stridesLoop [d] = [1]"
| "stridesLoop (d # e # ds) =
     (let r = stridesLoop (e # ds) in (if e = 0 then 0 else wrapInt (hd r * e)) # r)"

text \<open>\<open>make([]int, len(shape))\<close>, filled by the loop only when there are elements.\<close>

definition makeStrides :: "int \<Rightarrow> int list \<Rightarrow> int list" where
  "makeStrides totalElements shape =
     (if length shape > 0 \<and> totalElements > 0 then stridesLoop shape
      else replicate (length shape) 0)"

text \<open>
  \<open>NewTensor\<close>: the product of the dimensions wraps around; \<open>make([]T, totalElements)\<close>
  panics when it has wrapped to a negative number.
\<close>

definition NewTensor :: "numeric \<Rightarrow> string \<Rightarrow> int list \<Rightarrow> string \<Rightarrow> error + ('a::zero) Tensor" where
  "NewTensor T name shape dataTypeString =
     (let typeStrT = GetDataTypeString T in
      if typeStrT \<noteq> dataTypeString then Inl (TypeParameterMismatch typeStrT dataTypeString)
      else if \<exists>dim \<in> set shape. dim < 0 then Inl NegativeDimension
      else
        let totalElements =
              (if length shape > 0
               then (case zeroDimLoop 1 shape of (n, hasZeroDim) \<Rightarrow> if hasZeroDim then 0 else n)
               else 1);
            dataSlice = replicate (nat totalElements) 0;
            strides = makeStrides totalElements shape
        in if totalElements < 0 then Inl Panic
           else Inr \<lparr>Name = name, Shape = shape, DataType = dataTypeString,
                      Strides = strides, Data = dataSlice\<rparr>)"

definition SetData :: "'a Tensor \<Rightarrow> 'a list \<Rightarrow> error + 'a Tensor" where
  "SetData t data =
     (let expectedElements = getTotalElements t; actualElements = length data in
      if int actualElements \<noteq> expectedElements
      then Inl (DataSizeMismatch actualElements expectedElements)
      else Inr (t\<lparr>Data := data\<rparr>))"

subsection \<open>GetSlice\<close>

text \<open>The validation loop over the ranges, building \<open>newSliceShape\<close>; \<open>i\<close> is the loop index.\<close>

fun sliceShapeLoop :: "int list \<Rightarrow> nat \<Rightarrow> (int \<times> int) list \<Rightarrow> error + int list" where
  "sliceShapeLoop shape i [] = Inr []"
| "sliceShapeLoop shape i (r # rs) =
     (if length shape = 0 \<and> i = 0 then
        (if fst r < 0 \<or> snd r > 1 \<or> fst r > snd r then Inl (InvalidSliceRange (fst r) (snd r) i 1)
         else (case sliceShapeLoop shape (Suc i) rs of
                 Inl e \<Rightarrow> Inl e
               | Inr ds \<Rightarrow> Inr (wrapInt (snd r - fst r) # ds)))
      else if i < length shape then
        (if fst r < 0 \<or> snd r > shape ! i \<or> fst r > snd r
         then Inl (InvalidSliceRange (fst r) (snd r) i (shape ! i))
         else (case sliceShapeLoop shape (Suc i) rs of
                 Inl e \<Rightarrow> Inl e
               | Inr ds \<Rightarrow> Inr (wrapInt (snd r - fst r) # ds)))
      else Inl ShapeDimensionOutOfBounds)"

text \<open>\<open>sourceOffset += originalDimIndex * t.Strides[i]\<close>; a missing stride is a panic.\<close>

fun sourceOffsetLoop :: "int \<Rightarrow> int list \<Rightarrow> int list \<Rightarrow> int option" where
  "sourceOffsetLoop acc [] strides = Some acc"
| "sourceOffsetLoop acc (x # xs) [] = None"
| "sourceOffsetLoop acc (x # xs) (s # ss) =
     sourceOffsetLoop (wrapInt (acc + wrapInt (x * s))) xs ss"

text \<open>
  The carry loop \<open>for i := len(idx)-1; i >= 0; i--\<close>, entered with \<open>Suc i\<close>; the flag says
  that the outermost index ran past its range (\<open>break mainLoop\<close>).
\<close>

fun advance :: "(int \<times> int) list \<Rightarrow> nat \<Rightarrow> int list \<Rightarrow> int list \<times> bool" where
  "advance ranges 0 idx = (idx, False)"
| "advance ranges (Suc i) idx =
     (let idx' = idx[i := wrapInt (idx ! i + 1)] in
      if idx' ! i < snd (ranges ! i) then (idx', False)
      else if i > 0 then advance ranges i (idx'[i := fst (ranges ! i)])
      else (idx', True))"

function mainLoop ::
  "'a Tensor \<Rightarrow> (int \<times> int) list \<Rightarrow> int \<Rightarrow> int list \<Rightarrow> nat \<Rightarrow> 'a list \<Rightarrow> error + 'a list" where
  "mainLoop t ranges resultSize idx destIndex resultSlice =
     (case sourceOffsetLoop 0 idx (Strides t) of
        None \<Rightarrow> Inl Panic
      | Some sourceOffset \<Rightarrow>
          if getTotalElements t > 0 \<and> sourceOffset \<ge> int (length (Data t))
          then Inl (SourceOffsetOutOfBounds sourceOffset (length (Data t)))
          else if getTotalElements t > 0 \<and> sourceOffset < 0 then Inl Panic
          else if \<not> getTotalElements t > 0 \<and> resultSize > 0 then Inl NonEmptySliceFromEmptyTensor
          else
            let resultSlice' =
                  (if getTotalElements t > 0
                   then resultSlice[destIndex := Data t ! nat sourceOffset]
                   else resultSlice)
            in if int (Suc destIndex) \<ge> resultSize then Inr resultSlice'
               else (case advance ranges (length idx) idx of
                       (idx', True) \<Rightarrow> Inr resultSlice'
                     | (idx', False) \<Rightarrow>
                         mainLoop t ranges resultSize idx' (Suc destIndex) resultSlice'))"
  by pat_completeness auto
termination
  by (relation "measure (\<lambda>(t, ranges, resultSize, idx, destIndex, resultSlice).
                  nat resultSize - destIndex)") auto

declare mainLoop.simps [simp del]

text \<open>
  \<open>GetSlice\<close>: \<open>make([]T, resultSize)\<close> panics when the product of the lengths of the
  ranges has wrapped to a negative number.
\<close>

definition GetSlice :: "('a::zero) Tensor \<Rightarrow> (int \<times> int) list \<Rightarrow> error + 'a list" where
  "GetSlice t ranges =
     (if getTotalElements t = 0
         \<and> (case ranges of [] \<Rightarrow> False | r # rs \<Rightarrow> wrapInt (snd r - fst r) > 0)
         \<and> \<not> list_all (\<lambda>r. \<not> wrapInt (snd r - fst r) > 0) ranges
      then Inl SliceFromEmptyTensor
      else if length ranges \<noteq> length (Shape t)
              \<and> \<not> (length (Shape t) = 0 \<and> length ranges = 1
                     \<and> fst (ranges ! 0) = 0 \<and> snd (ranges ! 0) = 1)
              \<and> \<not> (length (Shape t) = 1 \<and> Shape t ! 0 = 1 \<and> length ranges = 1
                     \<and> fst (ranges ! 0) = 0 \<and> snd (ranges ! 0) = 1)
      then Inl (RangesLengthMismatch (length ranges) (length (Shape t)))
      else
        (case sliceShapeLoop (Shape t) 0 ranges of
           Inl e \<Rightarrow> Inl e
         | Inr newSliceShape \<Rightarrow>
             let resultSize =
                   (case zeroDimLoop 1 newSliceShape of
                      (n, hasZeroDimInSlice) \<Rightarrow> if hasZeroDimInSlice then 0 else n);
                 resultSlice = replicate (nat resultSize) 0
             in if resultSize < 0 then Inl Panic
                else if resultSize = 0 then Inr resultSlice
                else if getTotalElements t = 1 \<and> length (Shape t) \<le> 1 \<and> resultSize = 1 then
                  (if length (Data t) > 0 then Inr (resultSlice[0 := Data t ! 0])
                   else Inl InconsistentScalarState)
                else if length ranges < length (Shape t) then Inl Panic
                else mainLoop t ranges resultSize
                       (map (\<lambda>i. fst (ranges ! i)) [0..<length (Shape t)]) 0 resultSlice))"

subsection \<open>GetDataForInference\<close>

text \<open>
  The first half of \<open>GetDataForInference\<close>: the data, the shape and the strides of the
  selection. \<open>ranges\<close> is the argument \<open>[][][2]int\<close>; a nil entry is \<open>None\<close>.
\<close>

definition selection ::
  "('a::zero) Tensor \<Rightarrow> (int \<times> int) list option list \<Rightarrow> error + ('a list \<times> int list \<times> int list)" where
  "selection t ranges =
     (case ranges of
        Some r0 # rest \<Rightarrow>
          if length r0 \<noteq> length (Shape t)
             \<and> \<not> (length (Shape t) = 0 \<and> length r0 = 1 \<and> fst (r0 ! 0) = 0 \<and> snd (r0 ! 0) = 1)
          then Inl (InferenceRangesLengthMismatch (length r0) (length (Shape t)) (Name t))
          else
            (case GetSlice t r0 of
               Inl e \<Rightarrow> Inl (FailedToGetSlice (Name t) e)
             | Inr dataToProcess \<Rightarrow>
                 let currentShape = map (\<lambda>r. wrapInt (snd r - fst r)) r0;
                     currentStrides = makeStrides (tNilaiTotalElemen currentShape) currentShape
                 in Inr (dataToProcess, currentShape, currentStrides))
      | _ \<Rightarrow> Inr (Data t, Shape t, Strides t))"

text \<open>
  One pass of the batch loop, for the index \<open>i\<close>. The loop computes positions in the
  buffer \<open>dataToProcess\<close> and counts of its elements and bytes: for a buffer that a
  machine holds they stay below \<open>2^63\<close>, and the pass is written without the wrap-around.
\<close>

definition makeBatch ::
  "'a Tensor \<Rightarrow> 'a list \<Rightarrow> int list \<Rightarrow> int list \<Rightarrow> int \<Rightarrow> int \<Rightarrow> int \<Rightarrow> int \<Rightarrow> int
     \<Rightarrow> error + 'a TensorDataWithMetadata" where
  "makeBatch t dataToProcess currentShape currentStrides totalElementsInSelection elementSize
     batchSize numBatches i =
     (let start = i * batchSize;
          end0 = start + batchSize;
          end1 = (if end0 > totalElementsInSelection then totalElementsInSelection else end0)
      in if start \<ge> end1 then
           Inr \<lparr>Name = Name t, Shape = currentShape, DataType = DataType t,
                Strides = currentStrides, Data = [],
                NumDimensions = int (length currentShape),
                TotalElements = totalElementsInSelection, DataSizeBytes = 0 * elementSize,
                BatchInfo = Some \<lparr>BatchSize = batchSize, NumBatches = numBatches,
                                   CurrentBatchIndex = i\<rparr>\<rparr>
         else if start < 0 \<or> end1 > int (length dataToProcess) then Inl Panic
         else
           Inr \<lparr>Name = Name t, Shape = currentShape, DataType = DataType t,
                Strides = currentStrides,
                Data = take (nat (end1 - start)) (drop (nat start) dataToProcess),
                NumDimensions = int (length currentShape),
                TotalElements = totalElementsInSelection,
                DataSizeBytes = (end1 - start) * elementSize,
                BatchInfo = Some \<lparr>BatchSize = batchSize, NumBatches = numBatches,
                                   CurrentBatchIndex = i\<rparr>\<rparr>)"

text \<open>The loop \<open>for i := 0; i < numBatches; i++\<close> over the indices still to do.\<close>

fun batchLoop :: "(int \<Rightarrow> error + 'b) \<Rightarrow> nat list \<Rightarrow> error + 'b list" where
  "batchLoop body [] = Inr []"
| "batchLoop body (i # rest) =
     (case body (int i) of
        Inl e \<Rightarrow> Inl e
      | Inr b \<Rightarrow> (case batchLoop body rest of Inl e \<Rightarrow> Inl e | Inr bs \<Rightarrow> Inr (b # bs)))"

text \<open>
  \<open>math.Ceil(float64(a) / float64(b))\<close> converted back to \<open>int\<close>: the ceiling of the
  quotient (the conversions are exact for operands below \<open>2^53\<close>).
\<close>

definition ceilDiv :: "int \<Rightarrow> int \<Rightarrow> int" where
  "ceilDiv a b = \<lceil>real_of_int a / real_of_int b\<rceil>"

definition GetDataForInference ::
  "('a::zero) Tensor \<Rightarrow> (int \<times> int) list option list \<Rightarrow> int
     \<Rightarrow> error + 'a TensorDataWithMetadata list" where
  "GetDataForInference t ranges batchSize =
     (case selection t ranges of
        Inl e \<Rightarrow> Inl e
      | Inr (dataToProcess, currentShape, currentStrides) \<Rightarrow>
          let totalElementsInSelection =
                (if length currentShape = 0 then 1
                 else (case zeroDimLoop 1 currentShape of
                         (n, isZeroDim) \<Rightarrow> if isZeroDim then 0 else n))
          in case GetElementSize (DataType t) of
               Inl e \<Rightarrow> Inl e
             | Inr elementSize \<Rightarrow>
                 if batchSize \<le> 0 \<or> totalElementsInSelection = 0 then
                   Inr [\<lparr>Name = Name t, Shape = currentShape, DataType = DataType t,
                         Strides = currentStrides, Data = dataToProcess,
                         NumDimensions = int (length currentShape),
                         TotalElements = totalElementsInSelection,
                         DataSizeBytes = wrapInt (totalElementsInSelection * elementSize),
                         BatchInfo = None\<rparr>]
                 else
                   let n0 = ceilDiv totalElementsInSelection batchSize;
                       numBatches =
                         (if n0 = 0 \<and> totalElementsInSelection > 0 then 1
                          else if totalElementsInSelection = 0
                               then (if batchSize > 0 then 1 else 0)
                               else n0)
                   in if numBatches = 0 \<and> totalElementsInSelection = 0 \<and> batchSize > 0 then
                        Inr [\<lparr>Name = Name t, Shape = currentShape, DataType = DataType t,
                              Strides = currentStrides, Data = [],
                              NumDimensions = int (length currentShape),
                              TotalElements = 0, DataSizeBytes = 0,
                              BatchInfo = Some \<lparr>BatchSize = batchSize, NumBatches = 1,
                                                 CurrentBatchIndex = 0\<rparr>\<rparr>]
                      else
                        batchLoop
                          (makeBatch t dataToProcess currentShape currentStrides
                             totalElementsInSelection elementSize batchSize numBatches)
                          [0..<nat numBatches])"

section \<open>Library functions of Go used by the storage engine and the parser\<close>

text \<open>A Go string is a sequence of bytes: a \<open>string\<close> of 8-bit characters.\<close>

subsection \<open>strings.TrimSpace\<close>

text \<open>
  The UTF-8 encodings of the code points \<open>unicode.IsSpace\<close> accepts: tab, line feed,
  vertical tab, form feed, carriage return, space, U+0085, U+00A0, U+1680,
  U+2000 to U+200A, U+2028, U+2029, U+202F, U+205F and U+3000.
\<close>

definition spaceEncodings :: "string list" where
  "spaceEncodings =
     [[CHR 0x09], [CHR 0x0A], [CHR 0x0B], [CHR 0x0C], [CHR 0x0D], [CHR 0x20],
      [CHR 0xC2, CHR 0x85], [CHR 0xC2, CHR 0xA0], [CHR 0xE1, CHR 0x9A, CHR 0x80],
      [CHR 0xE2, CHR 0x80, CHR 0x80], [CHR 0xE2, CHR 0x80, CHR 0x81],
      [CHR 0xE2, CHR 0x80, CHR 0x82], [CHR 0xE2, CHR 0x80, CHR 0x83],
      [CHR 0xE2, CHR 0x80, CHR 0x84], [CHR 0xE2, CHR 0x80, CHR 0x85],
      [CHR 0xE2, CHR 0x80, CHR 0x86], [CHR 0xE2, CHR 0x80, CHR 0x87],
      [CHR 0xE2, CHR 0x80, CHR 0x88], [CHR 0xE2, CHR 0x80, CHR 0x89],
      [CHR 0xE2, CHR 0x80, CHR 0x8A], [CHR 0xE2, CHR 0x80, CHR 0xA8],
      [CHR 0xE2, CHR 0x80, CHR 0xA9], [CHR 0xE2, CHR 0x80, CHR 0xAF],
      [CHR 0xE2, CHR 0x81, CHR 0x9F], [CHR 0xE3, CHR 0x80, CHR 0x80]]"

text \<open>The number of bytes of the white-space rune the string starts with, or 0.\<close>

definition leadingSpace :: "string list \<Rightarrow> string \<Rightarrow> nat" where
  "leadingSpace encs s =
     (case filter (\<lambda>e. take (length e) s = e) encs of [] \<Rightarrow> 0 | e # es \<Rightarrow> length e)"

function trimLeftWith :: "string list \<Rightarrow> string \<Rightarrow> string" where
  "trimLeftWith encs s =
     (if leadingSpace encs s = 0 then s else trimLeftWith encs (drop (leadingSpace encs s) s))"
  by pat_completeness auto
termination
proof (relation "measure (\<lambda>(encs, s). length s)")
  show "wf (measure (\<lambda>(encs, s). length s))" by simp
next
  fix encs :: "string list" and s :: string
  assume pos: "leadingSpace encs s \<noteq> 0"
  then obtain e es where f: "filter (\<lambda>e. take (length e) s = e) encs = e # es"
    and e: "leadingSpace encs s = length e"
    by (auto simp: leadingSpace_def split: list.splits)
  from f have "e \<in> set (filter (\<lambda>e. take (length e) s = e) encs)" by simp
  then have "take (length e) s = e" by simp
  with pos e have "s \<noteq> []" by auto
  with pos show "((encs, drop (leadingSpace encs s) s), (encs, s)) \<in> measure (\<lambda>(encs, s). length s)"
    by simp
qed

declare trimLeftWith.simps [simp del]

definition TrimSpace :: "string \<Rightarrow> string" where
  "TrimSpace s =
     rev (trimLeftWith (map rev spaceEncodings) (rev (trimLeftWith spaceEncodings s)))"

subsection \<open>strings.Split, strings.SplitN, strings.Join, strings.TrimSuffix\<close>

text \<open>\<open>strings.Split(s, sep)\<close> for a separator of one byte.\<close>

fun Split :: "string \<Rightarrow> char \<Rightarrow> string list" where
  "Split [] sep = [[]]"
| "Split (c # cs) sep =
     (if c = sep then [] # Split cs sep
      else (case Split cs sep of [] \<Rightarrow> [[c]] | w # ws \<Rightarrow> (c # w) # ws))"

text \<open>\<open>strings.SplitN(s, sep, 2)\<close> for a separator of one byte: a split at the first one.\<close>

definition SplitN2 :: "string \<Rightarrow> char \<Rightarrow> string list" where
  "SplitN2 s sep =
     (if sep \<in> set s then [takeWhile (\<lambda>c. c \<noteq> sep) s, tl (dropWhile (\<lambda>c. c \<noteq> sep) s)]
      else [s])"

fun Join :: "string list \<Rightarrow> string \<Rightarrow> string" where
  "Join [] sep = []"
| "Join [x] sep = x"
| "Join (x # y # ys) sep = x @ sep @ Join (y # ys) sep"

definition HasSuffix :: "string \<Rightarrow> string \<Rightarrow> bool" where
  "HasSuffix s suffix =
     (length suffix \<le> length s \<and> drop (length s - length suffix) s = suffix)"

definition TrimSuffix :: "string \<Rightarrow> string \<Rightarrow> string" where
  "TrimSuffix s suffix = (if HasSuffix s suffix then take (length s - length suffix) s else s)"

text \<open>\<open>strings.Contains\<close>: the substring starts at some position.\<close>

fun Contains :: "string \<Rightarrow> string \<Rightarrow> bool" where
  "Contains [] substr = (substr = [])"
| "Contains (c # cs) substr = (take (length substr) (c # cs) = substr \<or> Contains cs substr)"

subsection \<open>strconv.Itoa and strconv.Atoi\<close>

definition digitChar :: "nat \<Rightarrow> char" where
  "digitChar n = char_of (48 + n)"

function natString :: "nat \<Rightarrow> string" where
  "natString n = (if n < 10 then [digitChar n] else natString (n div 10) @ [digitChar (n mod 10)])"
  by pat_completeness auto
termination
  by (relation "measure id") auto

declare natString.simps [simp del]

definition Itoa :: "int \<Rightarrow> string" where
  "Itoa i = (if i < 0 then CHR ''-'' # natString (nat (- i)) else natString (nat i))"

definition digitValue :: "char \<Rightarrow> int option" where
  "digitValue c =
     (if 48 \<le> (of_char c :: int) \<and> (of_char c :: int) \<le> 57 then Some (of_char c - 48) else None)"

fun digitsValue :: "int \<Rightarrow> string \<Rightarrow> int option" where
  "digitsValue acc [] = Some acc"
| "digitsValue acc (c # cs) =
     (case digitValue c of None \<Rightarrow> None | Some d \<Rightarrow> digitsValue (acc * 10 + d) cs)"

text \<open>
  \<open>strconv.ParseInt(s, 10, bitSize)\<close>: an optional sign, then decimal digits only; a value
  outside the signed range of \<open>bitSize\<close> bits is a range error.
\<close>

definition ParseInt :: "string \<Rightarrow> nat \<Rightarrow> numError + int" where
  "ParseInt s bitSize =
     (let neg = (s \<noteq> [] \<and> hd s = CHR ''-'');
          digits = (if s \<noteq> [] \<and> (hd s = CHR ''-'' \<or> hd s = CHR ''+'') then tl s else s)
      in if digits = [] then Inl ErrSyntax
         else (case digitsValue 0 digits of
                 None \<Rightarrow> Inl ErrSyntax
               | Some n \<Rightarrow>
                   let v = (if neg then - n else n) in
                   if v < - (2 ^ (bitSize - 1)) \<or> v > 2 ^ (bitSize - 1) - 1 then Inl ErrRange
                   else Inr v))"

definition Atoi :: "string \<Rightarrow> numError + int" where
  "Atoi s = ParseInt s 64"

subsection \<open>filepath.Base and filepath.Join\<close>

text \<open>\<open>filepath.Base\<close> on a system whose separator is the slash.\<close>

definition Base :: "string \<Rightarrow> string" where
  "Base path =
     (if path = [] then ''.''
      else
        let stripped = rev (dropWhile (\<lambda>c. c = CHR ''/'') (rev path));
            last_elem = rev (takeWhile (\<lambda>c. c \<noteq> CHR ''/'') (rev stripped))
        in if last_elem = [] then ''/'' else last_elem)"

text \<open>
  \<open>filepath.Join(dir, file)\<close> for a directory that is a clean path and a file name without
  separators or dot segments (the cleaning of the joined path is not modelled).
\<close>

definition JoinPath :: "string \<Rightarrow> string \<Rightarrow> string" where
  "JoinPath dir file = dir @ ''/'' @ file"

section \<open>Storage engine (storage.go)\<close>

subsection \<open>The in-memory index\<close>

text \<open>
  A Go set \<open>map[string]struct{}\<close> is a finite set, a Go map a finite map. \<open>Query\<close> returns
  the names it collects while ranging over a set: a slice without duplicates whose order
  Go leaves open, modelled as the finite set of its elements.
\<close>

record InMemoryIndex =
  ByDataType :: "(string, string fset) fmap"
  ByNumDimensions :: "(int, string fset) fmap"

definition NewInMemoryIndex :: InMemoryIndex where
  "NewInMemoryIndex = \<lparr>ByDataType = fmempty, ByNumDimensions = fmempty\<rparr>"

text \<open>\<open>if _, ok := m[k]; !ok { m[k] = make(...) }; m[k][name] = struct{}{}\<close>\<close>

definition addName :: "('k, string fset) fmap \<Rightarrow> 'k \<Rightarrow> string \<Rightarrow> ('k, string fset) fmap" where
  "addName m k name =
     (case fmlookup m k of
        None \<Rightarrow> fmupd k {|name|} m
      | Some names \<Rightarrow> fmupd k (finsert name names) m)"

text \<open>\<open>if names, ok := m[k]; ok { delete(names, name); if len(names) == 0 { delete(m, k) } }\<close>\<close>

definition removeName :: "('k, string fset) fmap \<Rightarrow> 'k \<Rightarrow> string \<Rightarrow> ('k, string fset) fmap" where
  "removeName m k name =
     (case fmlookup m k of
        None \<Rightarrow> m
      | Some names \<Rightarrow>
          if names |-| {|name|} = {||} then fmdrop k m else fmupd k (names |-| {|name|}) m)"

definition indexRank :: "int list \<Rightarrow> int" where
  "indexRank shape =
     (let numDimensions = int (length shape);
          numDimensions = (if length shape = 1 \<and> shape ! 0 = 0 then 0 else numDimensions);
          numDimensions = (if length shape = 0 then 0 else numDimensions)
      in numDimensions)"

definition Add :: "InMemoryIndex \<Rightarrow> TensorMetadata \<Rightarrow> InMemoryIndex" where
  "Add idx metadata =
     (let tensorName = Name metadata;
          dataType = DataType metadata;
          numDimensions = indexRank (Shape metadata)
      in \<lparr>ByDataType = addName (ByDataType idx) dataType tensorName,
          ByNumDimensions = addName (ByNumDimensions idx) numDimensions tensorName\<rparr>)"

definition Remove :: "InMemoryIndex \<Rightarrow> TensorMetadata \<Rightarrow> InMemoryIndex" where
  "Remove idx metadata =
     (let tensorName = Name metadata;
          dataType = DataType metadata;
          numDimensions = indexRank (Shape metadata)
      in \<lparr>ByDataType = removeName (ByDataType idx) dataType tensorName,
          ByNumDimensions = removeName (ByNumDimensions idx) numDimensions tensorName\<rparr>)"

text \<open>
  \<open>Query\<close>: \<open>None\<close> in the first two steps is the early \<open>return []string{}\<close> for a filter
  whose key the index does not hold.
\<close>

definition Query :: "InMemoryIndex \<Rightarrow> string \<Rightarrow> int \<Rightarrow> string fset" where
  "Query idx filterDataType filterNumDimensions =
     (case (if filterDataType \<noteq> []
            then map_option (\<lambda>names. [names]) (fmlookup (ByDataType idx) filterDataType)
            else Some []) of
        None \<Rightarrow> {||}
      | Some candidates1 \<Rightarrow>
          (case (if filterNumDimensions \<noteq> - 1
                 then map_option (\<lambda>names. candidates1 @ [names])
                        (fmlookup (ByNumDimensions idx) filterNumDimensions)
                 else Some candidates1) of
             None \<Rightarrow> {||}
           | Some candidateSets \<Rightarrow>
               (case candidateSets of
                  [] \<Rightarrow> ffUnion (fmran (ByDataType idx))
                | [names] \<Rightarrow> names
                | set0 # set1 # rest \<Rightarrow>
                    let (smallerSet, largerSet) =
                          (if fcard set0 < fcard set1 then (set0, set1) else (set1, set0))
                    in ffilter (\<lambda>name. name |\<in>| largerSet) smallerSet)))"

subsection \<open>Metadata files\<close>

record Storage =
  dataDir :: string
  files :: "string \<rightharpoonup> string"
  index :: InMemoryIndex

definition intSliceToString :: "int list \<Rightarrow> string" where
  "intSliceToString ints = Join (map Itoa ints) '',''"

text \<open>The loop of \<open>parseIntSlice\<close> over the parts; \<open>n\<close> is \<open>len(parts)\<close>.\<close>

fun parseParts :: "string \<Rightarrow> nat \<Rightarrow> string list \<Rightarrow> error + int list" where
  "parseParts s n [] = Inr []"
| "parseParts s n (p # ps) =
     (let trimmedPart = TrimSpace p in
      if trimmedPart = [] \<and> n = 1 \<and> s \<noteq> ''0'' then Inl (EmptyDimensionPart s)
      else if trimmedPart = [] \<and> n > 1 then Inl (EmptyDimensionPart s)
      else (case Atoi trimmedPart of
              Inl e \<Rightarrow> Inl (ErrorParsingInt trimmedPart s e)
            | Inr v \<Rightarrow>
                (case parseParts s n ps of Inl e \<Rightarrow> Inl e | Inr vs \<Rightarrow> Inr (v # vs))))"

definition parseIntSlice :: "string \<Rightarrow> error + int list" where
  "parseIntSlice s0 =
     (let s = TrimSpace s0 in
      if s = [] then Inr []
      else let parts = Split s (CHR '','') in parseParts s (length parts) parts)"

text \<open>
  The strides computed when none are given (in \<open>loadTensorMetadataInternal\<close> and again in
  \<open>SaveTensor\<close>): here the product is not reset to 0 at a zero dimension.
\<close>

definition defaultStrides :: "int list \<Rightarrow> int list" where
  "defaultStrides shape =
     (if length shape > 0 then
        (case zeroDimLoop 1 shape of
           (totalElements, isZeroDim) \<Rightarrow>
             if totalElements > 0 \<or> (length shape > 0 \<and> \<not> isZeroDim) then stridesLoop shape
             else replicate (length shape) 0)
      else [])"

text \<open>The struct \<open>tm\<close> while the lines are read: a nil slice is \<open>None\<close>.\<close>

record metadataFields =
  fName :: string
  fShape :: "int list option"
  fDataType :: string
  fStrides :: "int list option"

fun parseLines :: "string \<Rightarrow> metadataFields \<Rightarrow> string list \<Rightarrow> error + metadataFields" where
  "parseLines path tm [] = Inr tm"
| "parseLines path tm (line # rest) =
     (if line = [] then parseLines path tm rest
      else
        (case SplitN2 line (CHR '':'') of
           [k, v] \<Rightarrow>
             let key = TrimSpace k; val = TrimSpace v in
             if key = ''name'' then parseLines path (tm\<lparr>fName := val\<rparr>) rest
             else if key = ''shape'' then
               (case parseIntSlice val of
                  Inl e \<Rightarrow> Inl (InvalidShapeInMetadata val e)
                | Inr shape \<Rightarrow> parseLines path (tm\<lparr>fShape := Some shape\<rparr>) rest)
             else if key = ''datatype'' then
               (case GetElementSize val of
                  Inl e \<Rightarrow> Inl (UnsupportedDataTypeInMetadata val e)
                | Inr n \<Rightarrow> parseLines path (tm\<lparr>fDataType := val\<rparr>) rest)
             else if key = ''strides'' then
               (case parseIntSlice val of
                  Inl e \<Rightarrow> Inl (InvalidStridesInMetadata val e)
                | Inr strides \<Rightarrow> parseLines path (tm\<lparr>fStrides := Some strides\<rparr>) rest)
             else parseLines path tm rest
         | _ \<Rightarrow> Inl (InvalidMetadataFormat path line)))"

definition loadTensorMetadataInternal :: "Storage \<Rightarrow> string \<Rightarrow> error + TensorMetadata" where
  "loadTensorMetadataInternal s metadataFilePath =
     (case files s metadataFilePath of
        None \<Rightarrow> Inl (ReadMetadataFailed metadataFilePath)
      | Some content \<Rightarrow>
          (case parseLines metadataFilePath
                  \<lparr>fName = [], fShape = None, fDataType = [], fStrides = None\<rparr>
                  (Split content (CHR 0x0A)) of
             Inl e \<Rightarrow> Inl e
           | Inr tm \<Rightarrow>
               let name = (if fName tm = [] then TrimSuffix (Base metadataFilePath) ''.meta''
                           else fName tm)
               in (case fShape tm of
                     None \<Rightarrow> Inl (IncompleteMetadata metadataFilePath)
                   | Some shape \<Rightarrow>
                       if fDataType tm = [] \<or> name = []
                       then Inl (IncompleteMetadata metadataFilePath)
                       else
                         Inr \<lparr>Name = name, Shape = shape, DataType = fDataType tm,
                              Strides = (case fStrides tm of
                                           None \<Rightarrow> defaultStrides shape
                                         | Some strides \<Rightarrow> strides)\<rparr>)))"

definition LoadTensorMetadata :: "Storage \<Rightarrow> string \<Rightarrow> error + TensorMetadata" where
  "LoadTensorMetadata s name =
     loadTensorMetadataInternal s (JoinPath (dataDir s) (name @ ''.meta''))"

subsection \<open>SaveTensor\<close>

text \<open>
  \<open>SaveTensor\<close> returns its error, the store as the writes left it (the metadata file is
  written before the later checks) and the tensor, whose strides it may have replaced.
  \<open>binaryWrite\<close> is \<open>binary.Write(buf, binary.LittleEndian, val)\<close> for the element type.
  A nil \<open>t.Strides\<close> is the empty list: for rank 0 the replacement leaves it empty, for
  any other rank the lengths differ. Failures of the file system are not modelled.
\<close>

definition SaveTensor ::
  "numeric \<Rightarrow> ('a \<Rightarrow> string) \<Rightarrow> Storage \<Rightarrow> 'a Tensor \<Rightarrow> error option \<times> Storage \<times> 'a Tensor" where
  "SaveTensor T binaryWrite s t0 =
     (let metadataFile = JoinPath (dataDir s) (Name t0 @ ''.meta'');
          dataFile = JoinPath (dataDir s) (Name t0 @ ''.data'');
          typeStrT = GetDataTypeString T
      in if DataType t0 \<noteq> typeStrT then (Some (SaveTypeMismatch (DataType t0) typeStrT), s, t0)
         else
           let t = (if length (Strides t0) \<noteq> length (Shape t0)
                    then t0\<lparr>Strides := defaultStrides (Shape t0)\<rparr> else t0);
               metadataContent =
                 ''name:'' @ Name t @ [CHR 0x0A] @ ''shape:'' @ intSliceToString (Shape t)
                 @ [CHR 0x0A] @ ''datatype:'' @ DataType t @ [CHR 0x0A]
                 @ ''strides:'' @ intSliceToString (Strides t) @ [CHR 0x0A];
               s1 = s\<lparr>files := (files s)(metadataFile \<mapsto> metadataContent)\<rparr>;
               s2 = s1\<lparr>files := (files s1)(dataFile \<mapsto> [])\<rparr>
           in (case GetElementSize (DataType t) of
                 Inl e \<Rightarrow> (Some (CannotSaveTensor (Name t) e), s2, t)
               | Inr elementSize \<Rightarrow>
                   let fromShape =
                         (if length (Shape t) = 0 then 1
                          else (case zeroDimLoop 1 (Shape t) of
                                  (n, isZeroDim) \<Rightarrow> if isZeroDim then 0 else n));
                       numElements =
                         (if int (length (Data t)) \<noteq> fromShape \<and> fromShape > 0
                          then int (length (Data t)) else fromShape);
                       dataSize = wrapInt (numElements * elementSize)
                   in if dataSize < 0 then (Some (TruncateFailed dataFile (Name t)), s2, t)
                      else if dataSize = 0 then (None, s2, t)
                      else
                        let s3 = s2\<lparr>files := (files s2)(dataFile \<mapsto>
                                                   replicate (nat dataSize) (CHR 0x00))\<rparr>;
                            actualDataBytes = concat (map binaryWrite (Data t))
                        in if int (length actualDataBytes) \<noteq> dataSize
                           then (Some (SaveSizeMismatch (Name t) dataSize
                                         (length actualDataBytes)), s3, t)
                           else (None,
                                 s3\<lparr>files := (files s3)(dataFile \<mapsto> actualDataBytes)\<rparr>,
                                 t)))"

subsection \<open>Notions used to state the properties of the index\<close>

text \<open>The set of names the index holds under a key: empty when the key is absent.\<close>

definition indexed :: "('k, string fset) fmap \<Rightarrow> 'k \<Rightarrow> string fset" where
  "indexed m k = (case fmlookup m k of None \<Rightarrow> {||} | Some names \<Rightarrow> names)"

subsection \<open>Notions used to state the properties of metadata files\<close>

text \<open>The key of a line of a metadata file, as the loader reads it.\<close>

definition lineKey :: "string \<Rightarrow> string option" where
  "lineKey line =
     (case SplitN2 line (CHR '':'') of [k, v] \<Rightarrow> Some (TrimSpace k) | _ \<Rightarrow> None)"

text \<open>A key is present in a file when one of its non-empty lines has that key.\<close>

definition hasKey :: "string \<Rightarrow> string \<Rightarrow> bool" where
  "hasKey key content =
     list_ex (\<lambda>line. line \<noteq> [] \<and> lineKey line = Some key) (Split content (CHR 0x0A))"

text \<open>
  A line the loader reads without an error: an empty line, or a line with a colon whose
  value, for the keys \<open>shape\<close>, \<open>datatype\<close> and \<open>strides\<close>, is a list of integers, a
  supported data type and a list of integers. A file is well formed when its lines are.
\<close>

definition wellFormedLine :: "string \<Rightarrow> bool" where
  "wellFormedLine line \<longleftrightarrow>
     line = []
     \<or> (case SplitN2 line (CHR '':'') of
           [k, v] \<Rightarrow>
             (TrimSpace k = ''shape'' \<longrightarrow> \<not> isl (parseIntSlice (TrimSpace v)))
             \<and> (TrimSpace k = ''datatype'' \<longrightarrow> \<not> isl (GetElementSize (TrimSpace v)))
             \<and> (TrimSpace k = ''strides'' \<longrightarrow> \<not> isl (parseIntSlice (TrimSpace v)))
         | _ \<Rightarrow> False)"

definition wellFormed :: "string \<Rightarrow> bool" where
  "wellFormed content = list_all wellFormedLine (Split content (CHR 0x0A))"

subsection \<open>Notions used to state the properties of the text formats\<close>

text \<open>The bytes a decimal string is made of: a digit or the minus sign.\<close>

definition decimalByte :: "char \<Rightarrow> bool" where
  "decimalByte c \<longleftrightarrow> c = CHR ''-'' \<or> (48 \<le> (of_char c :: nat) \<and> (of_char c :: nat) \<le> 57)"

text \<open>The bytes that start, and the bytes that end, the encoding of a white-space rune.\<close>

definition spaceStart :: "char \<Rightarrow> bool" where
  "spaceStart c \<longleftrightarrow> c \<in> set (map hd spaceEncodings)"

definition spaceEnd :: "char \<Rightarrow> bool" where
  "spaceEnd c \<longleftrightarrow> c \<in> set (map last spaceEncodings)"

text \<open>The machine range of Go's \<open>int\<close> (64 bits).\<close>

definition inIntRange :: "int \<Rightarrow> bool" where
  "inIntRange i \<longleftrightarrow> - (2 ^ 63) \<le> i \<and> i \<le> 2 ^ 63 - 1"

section \<open>Executor: CREATE and INSERT\<close>

subsection \<open>Element values and encoding/binary\<close>

text \<open>
  An element is the bit pattern of its Go value: 32 bits for \<open>float32\<close> and \<open>int32\<close>,
  64 bits for \<open>float64\<close> and \<open>int64\<close> (a float is its IEEE 754 representation, which is
  what \<open>encoding/binary\<close> writes and reads). The zero value is the zero pattern.
\<close>

type_synonym float32 = "32 word"
type_synonym float64 = "64 word"
type_synonym int32 = "32 word"
type_synonym int64 = "64 word"

text \<open>\<open>binary.Write(buf, binary.LittleEndian, val)\<close> for a value of \<open>n\<close> bytes.\<close>

definition leBytes :: "nat \<Rightarrow> 'a::len word \<Rightarrow> string" where
  "leBytes n w = map (\<lambda>i. char_of (uint (drop_bit (8 * i) w))) [0..<n]"

text \<open>\<open>binary.Read\<close> of one little-endian value.\<close>

definition fromLeBytes :: "string \<Rightarrow> 'a::len word" where
  "fromLeBytes bs = word_of_int (foldr (\<lambda>c acc. of_char c + 256 * acc) bs 0)"

function chunksOf :: "nat \<Rightarrow> 'b list \<Rightarrow> 'b list list" where
  "chunksOf n xs = (if n = 0 \<or> xs = [] then [] else take n xs # chunksOf n (drop n xs))"
  by pat_completeness auto
termination
  by (relation "measure (\<lambda>(n, xs). length xs)") auto

declare chunksOf.simps [simp del]

text \<open>\<open>binary.Read(reader, binary.LittleEndian, &typedData)\<close> into a slice of elements.\<close>

definition readElements :: "nat \<Rightarrow> string \<Rightarrow> 'a::len word list" where
  "readElements elementSize raw = map fromLeBytes (chunksOf elementSize raw)"

subsection \<open>The text of the errors of the metadata loader\<close>

text \<open>
  \<open>strconv.Quote\<close>, as \<open>strconv.NumError\<close> prints the rejected text. A byte outside ASCII
  is written as a \<open>\x\<close> escape, which is what Go does for a byte that is not valid UTF-8
  (Go keeps a printable rune of several bytes as it is).
\<close>

definition hexDigit :: "nat \<Rightarrow> char" where
  "hexDigit n = (if n < 10 then char_of (48 + n) else char_of (87 + n))"

definition quoteByte :: "char \<Rightarrow> string" where
  "quoteByte c =
     (let n = (of_char c :: nat) in
      if c = CHR 0x22 then [CHR 0x5C, CHR 0x22]
      else if c = CHR 0x5C then [CHR 0x5C, CHR 0x5C]
      else if 32 \<le> n \<and> n \<le> 126 then [c]
      else if n = 7 then [CHR 0x5C, CHR ''a'']
      else if n = 8 then [CHR 0x5C, CHR ''b'']
      else if n = 12 then [CHR 0x5C, CHR ''f'']
      else if n = 10 then [CHR 0x5C, CHR ''n'']
      else if n = 13 then [CHR 0x5C, CHR ''r'']
      else if n = 9 then [CHR 0x5C, CHR ''t'']
      else if n = 11 then [CHR 0x5C, CHR ''v'']
      else [CHR 0x5C, CHR ''x'', hexDigit (n div 16), hexDigit (n mod 16)])"

definition Quote :: "string \<Rightarrow> string" where
  "Quote s = [CHR 0x22] @ concat (map quoteByte s) @ [CHR 0x22]"

definition numErrorText :: "numError \<Rightarrow> string" where
  "numErrorText e = (case e of ErrSyntax \<Rightarrow> ''invalid syntax'' | ErrRange \<Rightarrow> ''value out of range'')"

text \<open>
  \<open>err.Error()\<close> for the errors \<open>LoadTensorMetadata\<close> returns (the text of the other errors
  is not used by the model).
\<close>

fun Error :: "error \<Rightarrow> string" where
  "Error (ReadMetadataFailed p) =
     ''failed to read metadata from '' @ p @ '': open '' @ p @ '': no such file or directory''"
| "Error (InvalidMetadataFormat p line) =
     ''invalid metadata format in '' @ p @ '': '' @ [CHR 0x27] @ line @ [CHR 0x27]"
| "Error (InvalidShapeInMetadata v e) =
     ''invalid shape '' @ [CHR 0x27] @ v @ [CHR 0x27] @ '' in metadata: '' @ Error e"
| "Error (UnsupportedDataTypeInMetadata v e) =
     ''unsupported data type '' @ [CHR 0x27] @ v @ [CHR 0x27] @ '' in metadata: '' @ Error e"
| "Error (InvalidStridesInMetadata v e) =
     ''invalid strides '' @ [CHR 0x27] @ v @ [CHR 0x27] @ '' in metadata: '' @ Error e"
| "Error (IncompleteMetadata p) =
     ''incomplete metadata in '' @ p @ '' (name, shape, or datatype missing)''"
| "Error (EmptyDimensionPart s) =
     ''empty dimension string part in '' @ [CHR 0x27] @ s @ [CHR 0x27]"
| "Error (ErrorParsingInt part s e) =
     ''error parsing '' @ [CHR 0x27] @ part @ [CHR 0x27] @ '' as int in shape string ''
     @ [CHR 0x27] @ s @ [CHR 0x27] @ '': strconv.Atoi: parsing '' @ Quote part @ '': ''
     @ numErrorText e"
| "Error (UnsupportedDataTypeString dt) = ''unsupported data type string: '' @ dt"
| "Error e = []"

text \<open>
  \<open>os.IsNotExist(errors.Unwrap(err))\<close>: of the loader's errors only the failed read wraps
  an error of the file system, and the only failure of a read in the model is a file
  that does not exist.
\<close>

definition isNotExistUnwrapped :: "error \<Rightarrow> bool" where
  "isNotExistUnwrapped err = (case err of ReadMetadataFailed p \<Rightarrow> True | _ \<Rightarrow> False)"

subsection \<open>Queries\<close>

datatype QueryType =
    CreateTensorQuery | InsertTensorQuery | SelectTensorQuery | GetDataTensorQuery
  | MathOperationQuery | ListTensorsQuery

text \<open>
  The struct \<open>Query\<close>; a field whose name another record has carries the prefix \<open>q\<close>.
\<close>

record Query =
  qType :: QueryType
  TensorNames :: "string list"
  qShape :: "int list"
  qDataType :: string
  qData :: "string list"
  RawData :: string
  Slices :: "(int \<times> int) list option list"
  qBatchSize :: int
  MathOperator :: string
  InputTensorNames :: "string list"
  OutputTensorName :: string
  ScalarOperand :: string
  Axis :: "int option"
  FilterDataType :: string
  FilterNumDimensions :: int

subsection \<open>CREATE\<close>

text \<open>
  The state of the executor that CREATE and INSERT read and write is the storage (the
  directory's files and the index); neither touches the table of open memory maps.
  A branch of \<open>Execute\<close> returns its result and the storage it leaves.
\<close>

text \<open>One of the four branches of the \<open>switch query.DataType\<close> of CREATE.\<close>

definition createTensorOfType ::
  "numeric \<Rightarrow> ('a::zero \<Rightarrow> string) \<Rightarrow> Storage \<Rightarrow> Query \<Rightarrow> string \<Rightarrow> (error + string) \<times> Storage" where
  "createTensorOfType T binaryWrite s query tensorName =
     (case (NewTensor T tensorName (qShape query) (qDataType query) :: error + 'a Tensor) of
        Inl err \<Rightarrow> (Inl err, s)
      | Inr tensorInstance \<Rightarrow>
          (case SaveTensor T binaryWrite s tensorInstance of
             (Some err, s', t') \<Rightarrow> (Inl err, s')
           | (None, s', t') \<Rightarrow>
               let newTensorMetadata =
                     \<lparr>Name = Name t', Shape = Shape t', DataType = DataType t',
                      Strides = Strides t'\<rparr>
               in (Inr (''Tensor '' @ tensorName @ '' created with type '' @ qDataType query),
                   s'\<lparr>index := Add (index s') newTensorMetadata\<rparr>)))"

definition ExecuteCreateTensor :: "Storage \<Rightarrow> Query \<Rightarrow> (error + string) \<times> Storage" where
  "ExecuteCreateTensor s query =
     (case TensorNames query of
        [] \<Rightarrow> (Inl Panic, s)
      | tensorName # others \<Rightarrow>
          (case LoadTensorMetadata s tensorName of
             Inr existing \<Rightarrow> (Inl (TensorAlreadyExists tensorName), s)
           | Inl err \<Rightarrow>
               if \<not> isNotExistUnwrapped err
                  \<and> \<not> Contains (Error err) ''failed to read metadata''
               then (Inl (ErrorCheckingExistingTensor tensorName err), s)
               else if qDataType query = DataTypeFloat32
               then createTensorOfType TFloat32 (leBytes 4 :: float32 \<Rightarrow> string) s query tensorName
               else if qDataType query = DataTypeFloat64
               then createTensorOfType TFloat64 (leBytes 8 :: float64 \<Rightarrow> string) s query tensorName
               else if qDataType query = DataTypeInt32
               then createTensorOfType TInt32 (leBytes 4 :: int32 \<Rightarrow> string) s query tensorName
               else if qDataType query = DataTypeInt64
               then createTensorOfType TInt64 (leBytes 8 :: int64 \<Rightarrow> string) s query tensorName
               else (Inl (UnsupportedCreateDataType (qDataType query)), s)))"

subsection \<open>INSERT\<close>

text \<open>
  \<open>tempTensor, _ := NewTensor[T](...); tempTensor.SetData(typedData);
  SaveTensor(e.storage, tempTensor)\<close>: the three results are dropped. When \<open>NewTensor\<close>
  fails, \<open>tempTensor\<close> is nil and \<open>SetData\<close> dereferences it.
\<close>

definition storeTyped ::
  "numeric \<Rightarrow> ('a::zero \<Rightarrow> string) \<Rightarrow> Storage \<Rightarrow> TensorMetadata \<Rightarrow> 'a list
     \<Rightarrow> error option \<times> Storage" where
  "storeTyped T binaryWrite s metadata typedData =
     (case (NewTensor T (Name metadata) (Shape metadata) (DataType metadata)
              :: error + 'a Tensor) of
        Inl err \<Rightarrow> (Some Panic, s)
      | Inr tempTensor \<Rightarrow>
          let withData = (case SetData tempTensor typedData of
                            Inl err \<Rightarrow> tempTensor | Inr t \<Rightarrow> t)
          in (case SaveTensor T binaryWrite s withData of (err, s', t') \<Rightarrow> (None, s')))"

text \<open>The loop that converts the literals, stopping at the first that does not parse.\<close>

fun parseLiterals :: "(string \<Rightarrow> numError + 'a) \<Rightarrow> string \<Rightarrow> string list \<Rightarrow> error + 'a list" where
  "parseLiterals parse kind [] = Inr []"
| "parseLiterals parse kind (sVal # rest) =
     (case parse sVal of
        Inl e \<Rightarrow> Inl (ErrorParsingLiteral sVal kind e)
      | Inr v \<Rightarrow>
          (case parseLiterals parse kind rest of
             Inl e \<Rightarrow> Inl e
           | Inr vs \<Rightarrow> Inr (v # vs)))"

text \<open>\<open>strconv.ParseInt(sVal, 10, bitSize)\<close> converted to the element type.\<close>

definition parseIntElement :: "nat \<Rightarrow> string \<Rightarrow> numError + 'a::len word" where
  "parseIntElement bitSize sVal =
     (case ParseInt sVal bitSize of Inl e \<Rightarrow> Inl e | Inr v \<Rightarrow> Inr (word_of_int v))"

text \<open>One of the four branches of the \<open>switch metadata.DataType\<close> for literals.\<close>

definition insertStrings ::
  "numeric \<Rightarrow> ('a::zero \<Rightarrow> string) \<Rightarrow> (string \<Rightarrow> numError + 'a) \<Rightarrow> Storage \<Rightarrow> TensorMetadata
     \<Rightarrow> string list \<Rightarrow> string \<Rightarrow> (error + string) \<times> Storage" where
  "insertStrings T binaryWrite parse s metadata literals tensorName =
     (case parseLiterals parse (DataType metadata) literals of
        Inl err \<Rightarrow> (Inl err, s)
      | Inr typedData \<Rightarrow>
          (case storeTyped T binaryWrite s metadata typedData of
             (Some err, s') \<Rightarrow> (Inl err, s')
           | (None, s') \<Rightarrow> (Inr (''String data inserted into '' @ tensorName), s')))"

text \<open>The branches for no literals and no elements, and for raw data.\<close>

definition insertTyped ::
  "numeric \<Rightarrow> ('a::zero \<Rightarrow> string) \<Rightarrow> Storage \<Rightarrow> TensorMetadata \<Rightarrow> 'a list \<Rightarrow> string
     \<Rightarrow> (error + string) \<times> Storage" where
  "insertTyped T binaryWrite s metadata typedData status =
     (case storeTyped T binaryWrite s metadata typedData of
        (Some err, s') \<Rightarrow> (Inl err, s')
      | (None, s') \<Rightarrow> (Inr status, s'))"

text \<open>
  \<open>strconv.ParseFloat\<close> is not modelled: \<open>parseFloat32\<close> and \<open>parseFloat64\<close> stand for
  \<open>ParseFloat(sVal, 32)\<close> and \<open>ParseFloat(sVal, 64)\<close> converted to the element type.
\<close>

definition ExecuteInsertTensor ::
  "(string \<Rightarrow> numError + float32) \<Rightarrow> (string \<Rightarrow> numError + float64) \<Rightarrow> Storage \<Rightarrow> Query
     \<Rightarrow> (error + string) \<times> Storage" where
  "ExecuteInsertTensor parseFloat32 parseFloat64 s query =
     (case TensorNames query of
        [] \<Rightarrow> (Inl Panic, s)
      | tensorName # others \<Rightarrow>
          (case LoadTensorMetadata s tensorName of
             Inl err \<Rightarrow> (Inl (TensorNotFoundForInsert tensorName err), s)
           | Inr metadata \<Rightarrow>
               let expectedElements =
                     (if length (Shape metadata) = 0 then 1
                      else (case zeroDimLoop 1 (Shape metadata) of
                              (n, isZeroDim) \<Rightarrow> if isZeroDim then 0 else n));
                   dt = DataType metadata
               in if length (RawData query) > 0 then
                    (case GetElementSize dt of
                       Inl err \<Rightarrow> (Inl (RawDataElementSize err), s)
                     | Inr elementSize \<Rightarrow>
                         if elementSize = 0 then (Inl (RawDataZeroElementSize dt), s)
                         else
                           let numElementsFromRaw = int (length (RawData query)) div elementSize in
                           if int (length (RawData query)) mod elementSize \<noteq> 0
                           then (Inl (RawDataNotMultiple (length (RawData query)) elementSize dt), s)
                           else if numElementsFromRaw \<noteq> expectedElements
                           then (Inl (RawDataCountMismatch numElementsFromRaw (Name metadata)
                                        (Shape metadata) expectedElements), s)
                           else
                             let status = ''Raw data inserted into '' @ tensorName in
                             if dt = DataTypeFloat32
                             then insertTyped TFloat32 (leBytes 4) s metadata
                                    (readElements 4 (RawData query) :: float32 list) status
                             else if dt = DataTypeFloat64
                             then insertTyped TFloat64 (leBytes 8) s metadata
                                    (readElements 8 (RawData query) :: float64 list) status
                             else if dt = DataTypeInt32
                             then insertTyped TInt32 (leBytes 4) s metadata
                                    (readElements 4 (RawData query) :: int32 list) status
                             else if dt = DataTypeInt64
                             then insertTyped TInt64 (leBytes 8) s metadata
                                    (readElements 8 (RawData query) :: int64 list) status
                             else (Inl (UnsupportedInsertDataType dt (Name metadata)), s))
                  else
                    let numElementsToInsertFromString = length (qData query) in
                    if numElementsToInsertFromString = 0 \<and> expectedElements = 0 then
                      (let status = ''Data inserted into '' @ tensorName
                                    @ '' (0 elements from string)'' in
                       if dt = DataTypeFloat32
                       then insertTyped TFloat32 (leBytes 4) s metadata ([] :: float32 list) status
                       else if dt = DataTypeFloat64
                       then insertTyped TFloat64 (leBytes 8) s metadata ([] :: float64 list) status
                       else if dt = DataTypeInt32
                       then insertTyped TInt32 (leBytes 4) s metadata ([] :: int32 list) status
                       else if dt = DataTypeInt64
                       then insertTyped TInt64 (leBytes 8) s metadata ([] :: int64 list) status
                       else (Inl (UnsupportedInsertDataType dt (Name metadata)), s))
                    else if int numElementsToInsertFromString \<noteq> expectedElements
                    then (Inl (StringDataCountMismatch numElementsToInsertFromString
                                 (Name metadata) (Shape metadata) expectedElements), s)
                    else if dt = DataTypeFloat32
                    then insertStrings TFloat32 (leBytes 4) parseFloat32 s metadata
                           (qData query) tensorName
                    else if dt = DataTypeFloat64
                    then insertStrings TFloat64 (leBytes 8) parseFloat64 s metadata
                           (qData query) tensorName
                    else if dt = DataTypeInt32
                    then insertStrings TInt32 (leBytes 4) (parseIntElement 32 :: string \<Rightarrow> numError + int32)
                           s metadata (qData query) tensorName
                    else if dt = DataTypeInt64
                    then insertStrings TInt64 (leBytes 8) (parseIntElement 64 :: string \<Rightarrow> numError + int64)
                           s metadata (qData query) tensorName
                    else (Inl (UnsupportedInsertDataType dt (Name metadata)), s)))"

subsection \<open>Notions used to state the properties of the executor\<close>

text \<open>A literal parses in the kind of the target tensor.\<close>

definition literalParses ::
  "(string \<Rightarrow> numError + float32) \<Rightarrow> (string \<Rightarrow> numError + float64) \<Rightarrow> string \<Rightarrow> string \<Rightarrow> bool" where
  "literalParses parseFloat32 parseFloat64 dt sVal =
     (if dt = DataTypeFloat32 then \<not> isl (parseFloat32 sVal)
      else if dt = DataTypeFloat64 then \<not> isl (parseFloat64 sVal)
      else if dt = DataTypeInt32 then \<not> isl (ParseInt sVal 32)
      else if dt = DataTypeInt64 then \<not> isl (ParseInt sVal 64)
      else False)"


text \<open>The metadata of the tensor that CREATE makes for a query.\<close>

definition createdMetadata :: "string \<Rightarrow> Query \<Rightarrow> TensorMetadata" where
  "createdMetadata name query =
     \<lparr>Name = name, Shape = qShape query, DataType = qDataType query,
      Strides = makeStrides (tNilaiTotalElemen (qShape query)) (qShape query)\<rparr>"

text \<open>
  The size in bytes of the tensor that CREATE makes: the number of elements, as
  \<open>NewTensor\<close> computes it, times the size of an element.
\<close>

definition createdSize :: "Query \<Rightarrow> int" where
  "createdSize query =
     (case GetElementSize (qDataType query) of
        Inl e \<Rightarrow> 0
      | Inr elementSize \<Rightarrow> tNilaiTotalElemen (qShape query) * elementSize)"

text \<open>The data file of the tensor that CREATE makes: zero bytes.\<close>

definition createdData :: "Query \<Rightarrow> string" where
  "createdData query = replicate (nat (createdSize query)) (CHR 0x00)"

section \<open>Parser: CREATE TENSOR (parser.go)\<close>

subsection \<open>strings.Fields, strings.ToLower, strings.ReplaceAll, strings.Index\<close>

text \<open>
  \<open>strings.Fields\<close>: the maximal runs of bytes between white-space runes; \<open>cur\<close> is the
  field being read.
\<close>

function fieldsLoop :: "string \<Rightarrow> string \<Rightarrow> string list" where
  "fieldsLoop cur s =
     (if s = [] then (if cur = [] then [] else [cur])
      else if leadingSpace spaceEncodings s > 0
      then (if cur = [] then [] else [cur])
           @ fieldsLoop [] (drop (leadingSpace spaceEncodings s) s)
      else fieldsLoop (cur @ [hd s]) (tl s))"
  by pat_completeness auto
termination
  by (relation "measure (\<lambda>(cur, s). length s)") auto

declare fieldsLoop.simps [simp del]

definition Fields :: "string \<Rightarrow> string list" where
  "Fields s = fieldsLoop [] s"

text \<open>
  \<open>strings.ToLower\<close> on the ASCII letters; a byte outside ASCII is left as it is. (Go
  also lowers the letters of other scripts and rewrites invalid UTF-8; of these only
  U+0130 and U+212A become ASCII letters, \<open>i\<close> and \<open>k\<close>, which are in no keyword or
  type name that CREATE compares with.)
\<close>

definition lowerByte :: "char \<Rightarrow> char" where
  "lowerByte c =
     (if 65 \<le> (of_char c :: nat) \<and> (of_char c :: nat) \<le> 90 then char_of ((of_char c :: nat) + 32)
      else c)"

definition ToLower :: "string \<Rightarrow> string" where
  "ToLower s = map lowerByte s"

definition ReplaceAllSpaces :: "string \<Rightarrow> string" where
  "ReplaceAllSpaces s = filter (\<lambda>c. c \<noteq> CHR '' '') s"

text \<open>\<open>strings.Index\<close>: the first position of the substring, or \<open>-1\<close>.\<close>

fun Index :: "string \<Rightarrow> string \<Rightarrow> int" where
  "Index [] substr = (if substr = [] then 0 else - 1)"
| "Index (c # cs) substr =
     (if take (length substr) (c # cs) = substr then 0
      else (let i = Index cs substr in if i = - 1 then - 1 else i + 1))"

subsection \<open>The pattern of CREATE\<close>

text \<open>
  The pattern \<open>(?i)^\s*(.*?)\s*(?:type\s+([a-zA-Z0-9_]+))?\s*$\<close>, matched as Go's
  \<open>regexp\<close> does (the first match in backtracking order). \<open>\s\<close> is one of tab, line
  feed, form feed, carriage return and space; \<open>.\<close> is any byte but the line feed; under
  \<open>(?i)\<close> the class \<open>[a-zA-Z0-9_]\<close> also holds U+017F and U+212A, which fold to \<open>s\<close>
  and \<open>k\<close>.
\<close>

definition reSpace :: "char \<Rightarrow> bool" where
  "reSpace c \<longleftrightarrow> c \<in> {CHR 0x09, CHR 0x0A, CHR 0x0C, CHR 0x0D, CHR 0x20}"

definition asciiWord :: "char \<Rightarrow> bool" where
  "asciiWord c \<longleftrightarrow>
     (let n = (of_char c :: nat) in
      (48 \<le> n \<and> n \<le> 57) \<or> (65 \<le> n \<and> n \<le> 90) \<or> (97 \<le> n \<and> n \<le> 122) \<or> n = 95)"

text \<open>The number of bytes of the rune of the class that the string starts with, or 0.\<close>

definition wordRune :: "string \<Rightarrow> nat" where
  "wordRune s =
     (if s \<noteq> [] \<and> asciiWord (hd s) then 1
      else if take 2 s = [CHR 0xC5, CHR 0xBF] then 2
      else if take 3 s = [CHR 0xE2, CHR 0x84, CHR 0xAA] then 3
      else 0)"

text \<open>The longest run of runes of the class at the start of the string, and the rest.\<close>

function wordRun :: "string \<Rightarrow> string \<times> string" where
  "wordRun s =
     (if wordRune s = 0 then ([], s)
      else (case wordRun (drop (wordRune s) s) of
              (w, rest) \<Rightarrow> (take (wordRune s) s @ w, rest)))"
  by pat_completeness auto
termination
proof (relation "measure length")
  fix s :: string
  assume "wordRune s \<noteq> 0"
  then have "s \<noteq> []"
    by (auto simp: wordRune_def)
  with \<open>wordRune s \<noteq> 0\<close> show "(drop (wordRune s) s, s) \<in> measure length"
    by simp
qed simp

declare wordRun.simps [simp del]

text \<open>
  The part \<open>\s*(?:type\s+([a-zA-Z0-9_]+))?\s*$\<close> on the rest of the text: the second
  group when the text is white space, the keyword, white space, a word and white space;
  the empty string (the group does not take part) when the text is white space only.
\<close>

definition typeClause :: "string \<Rightarrow> string option" where
  "typeClause r =
     (let r1 = dropWhile reSpace r in
      if r1 = [] then Some []
      else if ToLower (take 4 r1) = ''type'' \<and> drop 4 r1 \<noteq> [] \<and> reSpace (hd (drop 4 r1)) then
        (case wordRun (dropWhile reSpace (drop 4 r1)) of
           (w, rest) \<Rightarrow> if w \<noteq> [] \<and> dropWhile reSpace rest = [] then Some w else None)
      else None)"

text \<open>
  The lazy group \<open>(.*?)\<close> takes the shortest text after which the rest matches; \<open>taken\<close>
  is the text tried so far (it cannot run over a line feed).
\<close>

fun lazyGroup :: "string \<Rightarrow> string \<Rightarrow> (string \<times> string) option" where
  "lazyGroup taken [] =
     (case typeClause [] of Some g2 \<Rightarrow> Some (taken, g2) | None \<Rightarrow> None)"
| "lazyGroup taken (c # cs) =
     (case typeClause (c # cs) of
        Some g2 \<Rightarrow> Some (taken, g2)
      | None \<Rightarrow> if c = CHR 0x0A then None else lazyGroup (taken @ [c]) cs)"

text \<open>\<open>createRegex.FindStringSubmatch\<close>: the groups 1 and 2, or nil.\<close>

definition createRegex :: "string \<Rightarrow> (string \<times> string) option" where
  "createRegex s = lazyGroup [] (dropWhile reSpace s)"

subsection \<open>The case \<open>create\<close> of \<open>Parse\<close>\<close>

datatype parseError =
    InvalidCreateSyntax
  | EmptyDimension string
  | InvalidDimension string string numError
  | NegativeDimensionText string string
  | InvalidCreateDataType string error
  | InvalidTypeAfterKeyword string
  | MissingTypeAfterKeyword
  | ParserPanic

text \<open>The loop over the dimensions of the shape text.\<close>

fun parseDims :: "string \<Rightarrow> string list \<Rightarrow> parseError + int list" where
  "parseDims shapeStr [] = Inr []"
| "parseDims shapeStr (dStr # rest) =
     (let trimmedDStr = TrimSpace dStr in
      if trimmedDStr = [] then Inl (EmptyDimension shapeStr)
      else (case Atoi trimmedDStr of
              Inl e \<Rightarrow> Inl (InvalidDimension trimmedDStr shapeStr e)
            | Inr d \<Rightarrow>
                if d < 0 then Inl (NegativeDimensionText trimmedDStr shapeStr)
                else (case parseDims shapeStr rest of
                        Inl e \<Rightarrow> Inl e
                      | Inr ds \<Rightarrow> Inr (d # ds))))"

text \<open>The shape of the shape text: no dimension for the empty text.\<close>

definition parseShape :: "string \<Rightarrow> parseError + int list" where
  "parseShape shapeStr =
     (if shapeStr = [] then Inr []
      else
        let shapeStrNoSpaces = ReplaceAllSpaces shapeStr;
            shapeDimsStr = Split shapeStrNoSpaces (CHR '','')
        in if length shapeDimsStr = 0
              \<or> (length shapeDimsStr = 1 \<and> TrimSpace (shapeDimsStr ! 0) = [])
           then Inr []
           else parseDims shapeStr shapeDimsStr)"

text \<open>The zero value of \<open>Query\<close> with the four fields a CREATE sets.\<close>

definition createQuery :: "string \<Rightarrow> int list \<Rightarrow> string \<Rightarrow> Query" where
  "createQuery tensorName shape dataType =
     \<lparr>qType = CreateTensorQuery, TensorNames = [tensorName], qShape = shape,
      qDataType = dataType, qData = [], RawData = [], Slices = [], qBatchSize = 0,
      MathOperator = [], InputTensorNames = [], OutputTensorName = [], ScalarOperand = [],
      Axis = None, FilterDataType = [], FilterNumDimensions = 0\<rparr>"

text \<open>
  \<open>Parse\<close> on a query that reaches \<open>case "create"\<close> of the switch on the first field of
  the lowered query (the patterns of the two ADD queries and the prefix of LIST TENSORS
  are tested before). \<open>partsOriginal\<close> and \<open>partsLower\<close> are the fields of the trimmed
  query and of its lowered text.
\<close>

definition ParseCreateTensor :: "string \<Rightarrow> parseError + Query" where
  "ParseCreateTensor query =
     (let queryOriginalCase = TrimSpace query;
          queryLower = ToLower queryOriginalCase;
          partsOriginal = Fields queryOriginalCase;
          partsLower = Fields queryLower
      in if length partsLower < 3 \<or> partsLower ! 1 \<noteq> ''tensor'' then Inl InvalidCreateSyntax
         else if length partsOriginal < 3 then Inl ParserPanic
         else
           let tensorName = partsOriginal ! 2;
               remainingStrOriginal = Join (drop 3 partsOriginal) '' '';
               matches = createRegex remainingStrOriginal;
               shapeStr =
                 (case matches of
                    None \<Rightarrow>
                      if remainingStrOriginal \<noteq> []
                         \<and> \<not> Contains (ToLower remainingStrOriginal) ''type''
                      then TrimSpace remainingStrOriginal else []
                  | Some (g1, g2) \<Rightarrow> TrimSpace g1);
               shapeResult = parseShape shapeStr
           in (case shapeResult of
                 Inl e \<Rightarrow> Inl e
               | Inr shape \<Rightarrow>
                   (case matches of
                      Some (g1, g2) \<Rightarrow>
                        if g2 \<noteq> [] then
                          (let dt = ToLower (TrimSpace g2) in
                           case GetElementSize dt of
                             Inl e \<Rightarrow> Inl (InvalidCreateDataType dt e)
                           | Inr n \<Rightarrow> Inr (createQuery tensorName shape dt))
                        else Inr (createQuery tensorName shape DataTypeFloat64)
                    | None \<Rightarrow>
                        if Contains (ToLower remainingStrOriginal) ''type'' then
                          (let typeIdx = Index (ToLower remainingStrOriginal) ''type'' in
                           if typeIdx \<noteq> - 1 then
                             (let potentialTypeStr =
                                    ToLower (TrimSpace (drop (nat typeIdx + 4)
                                                          remainingStrOriginal))
                              in if potentialTypeStr \<noteq> [] then
                                   (case GetElementSize potentialTypeStr of
                                      Inr n \<Rightarrow> Inr (createQuery tensorName [] potentialTypeStr)
                                    | Inl e \<Rightarrow> Inl (InvalidTypeAfterKeyword potentialTypeStr))
                                 else Inl MissingTypeAfterKeyword)
                           else Inr (createQuery tensorName shape DataTypeFloat64))
                        else Inr (createQuery tensorName shape DataTypeFloat64))))"

text \<open>
  A type is omitted when the text after the name has no \<open>type\<close> in it, in any letter
  case; a shape is omitted when nothing follows the name, or the keyword does.
\<close>

definition remainingText :: "string \<Rightarrow> string" where
  "remainingText query = Join (drop 3 (Fields (TrimSpace query))) '' ''"

definition typeOmitted :: "string \<Rightarrow> bool" where
  "typeOmitted query \<longleftrightarrow> \<not> Contains (ToLower (remainingText query)) ''type''"

definition shapeOmitted :: "string \<Rightarrow> bool" where
  "shapeOmitted query \<longleftrightarrow>
     length (Fields (TrimSpace query)) \<le> 3
     \<or> ToLower (Fields (TrimSpace query) ! 3) = ''type''"

section \<open>Verification\<close>

subsection \<open>Wrap-around\<close>

lemma wrapInt_id: "inIntRange x \<Longrightarrow> wrapInt x = x"
  by (simp add: wrapInt_def inIntRange_def)

lemma wrapInt_zero: "wrapInt 0 = 0"
  by (simp add: wrapInt_def)

lemma wrapInt_small: "0 \<le> x \<Longrightarrow> x < 2 ^ 63 \<Longrightarrow> wrapInt x = x"
  by (rule wrapInt_id) (simp add: inIntRange_def)

subsection \<open>Total elements\<close>

lemma zeroDimLoop_totalLoop:
  "(case zeroDimLoop acc ds of (n, z) \<Rightarrow> if z then 0 else n) = totalLoop acc ds"
  by (induction ds arbitrary: acc) auto

lemma selectionTotal_eq:
  "(if length cs = 0 then 1 else (case zeroDimLoop 1 cs of (n, z) \<Rightarrow> if z then 0 else n))
     = tNilaiTotalElemen cs"
  by (simp add: tNilaiTotalElemen_def zeroDimLoop_totalLoop)

subsection \<open>Batching an empty selection\<close>

text \<open>
  Claim C1. With a selection of zero total elements and a batch size \<open>S > 0\<close>, the claim
  asks for one envelope with an empty buffer and the batch info \<open>{S, 1, 0}\<close>. The code
  returns at its first test (\<open>batchSize <= 0 || totalElementsInSelection == 0\<close>), before
  the branch that builds that envelope: whatever the batch size, the result is the one
  envelope of the whole selection with no batch info.
\<close>

theorem GetDataForInference_empty_selection_no_batch_info:
  assumes "selection t ranges = Inr (d, cs, st)"
    and "tNilaiTotalElemen cs = 0"
    and "GetElementSize (DataType t) = Inr es"
  shows "GetDataForInference t ranges S =
           Inr [\<lparr>Name = Name t, Shape = cs, DataType = DataType t, Strides = st, Data = d,
                  NumDimensions = int (length cs), TotalElements = 0, DataSizeBytes = 0,
                  BatchInfo = None\<rparr>]"
  using assms unfolding GetDataForInference_def selectionTotal_eq
  by (simp add: wrapInt_zero)

theorem GetDataForInference_empty_selection_witness:
  "GetDataForInference
     \<lparr>Name = ''e'', Shape = [0], DataType = ''float32'', Strides = [0], Data = ([]::int list)\<rparr>
     [None] 5
   = Inr [\<lparr>Name = ''e'', Shape = [0], DataType = ''float32'', Strides = [0], Data = [],
            NumDimensions = 1, TotalElements = 0, DataSizeBytes = 0, BatchInfo = None\<rparr>]"
  using GetDataForInference_empty_selection_no_batch_info
          [of "\<lparr>Name = ''e'', Shape = [0], DataType = ''float32'', Strides = [0],
                Data = ([]::int list)\<rparr>" "[None]" "[]" "[0]" "[0]" 4 5]
  by (simp add: selection_def tNilaiTotalElemen_def GetElementSize_def DataTypeFloat32_def)

subsection \<open>Batched materialization\<close>

lemma batchLoop_all_ok:
  "(\<And>i. i \<in> set is \<Longrightarrow> body (int i) = Inr (f i)) \<Longrightarrow> batchLoop body is = Inr (map f is)"
  by (induction "is") auto

lemma ceilDiv_bounds:
  assumes "S > 0"
  shows "(ceilDiv T S - 1) * S < T" and "T \<le> ceilDiv T S * S"
proof -
  let ?x = "real_of_int T / real_of_int S"
  have "real_of_int (ceilDiv T S) - 1 < ?x" "?x \<le> real_of_int (ceilDiv T S)"
    unfolding ceilDiv_def by linarith+
  then have "(real_of_int (ceilDiv T S) - 1) * real_of_int S < real_of_int T"
    and "real_of_int T \<le> real_of_int (ceilDiv T S) * real_of_int S"
    using assms by (simp_all add: pos_less_divide_eq pos_divide_le_eq)
  then have "real_of_int ((ceilDiv T S - 1) * S) < real_of_int T"
    and "real_of_int T \<le> real_of_int (ceilDiv T S * S)"
    by simp_all
  then show "(ceilDiv T S - 1) * S < T" and "T \<le> ceilDiv T S * S"
    by linarith+
qed

lemma ceilDiv_pos: "S > 0 \<Longrightarrow> T > 0 \<Longrightarrow> ceilDiv T S > 0"
  unfolding ceilDiv_def by simp

lemma concat_chunks:
  "concat (map (\<lambda>i. take s (drop (i * s) d)) [0..<n]) = take (n * s) d"
proof (induction n)
  case 0
  then show ?case by simp
next
  case (Suc n)
  have "take (n * s) d @ take s (drop (n * s) d) = take (n * s + s) d"
    by (simp add: take_add)
  with Suc show ?case by (simp add: add.commute)
qed


lemma sliceShapeLoop_shape:
  "sliceShapeLoop shape i rs = Inr ds \<Longrightarrow> ds = map (\<lambda>r. wrapInt (snd r - fst r)) rs"
  by (induction rs arbitrary: i ds) (auto split: if_splits sum.splits)

lemma mainLoop_length:
  "mainLoop t ranges resultSize idx destIndex resultSlice = Inr xs
     \<Longrightarrow> length xs = length resultSlice"
proof (induction t ranges resultSize idx destIndex resultSlice rule: mainLoop.induct)
  case (1 t ranges resultSize idx destIndex resultSlice)
  note run = "1.prems"[unfolded mainLoop.simps[of t ranges resultSize idx destIndex resultSlice]]
  from run obtain off where off: "sourceOffsetLoop 0 idx (Strides t) = Some off"
    by (auto split: option.splits)
  define res' where "res' = (if 0 < getTotalElements t
                   then resultSlice[destIndex := Data t ! nat off]
                   else resultSlice)"
  have len': "length res' = length resultSlice" by (simp add: res'_def)
  from run off have guards: "\<not> (0 < getTotalElements t \<and> int (length (Data t)) \<le> off)"
                    "\<not> (0 < getTotalElements t \<and> off < 0)"
                    "\<not> (\<not> 0 < getTotalElements t \<and> 0 < resultSize)"
    by (auto split: if_splits)
  show ?case
  proof (cases "resultSize \<le> int (Suc destIndex)")
    case True
    with run off guards have "xs = res'"
      by (auto simp: res'_def Let_def split: if_splits)
    with len' show ?thesis by simp
  next
    case False
    obtain idx' brk where adv: "(idx', brk) = advance ranges (length idx) idx"
      by (cases "advance ranges (length idx) idx") auto
    show ?thesis
    proof (cases brk)
      case True
      with run off adv[symmetric] False guards have "xs = res'"
        by (auto simp: res'_def Let_def split: if_splits)
      with len' show ?thesis by simp
    next
      case brkF: False
      with run off adv[symmetric] False guards
      have rec: "mainLoop t ranges resultSize idx' (Suc destIndex) res' = Inr xs"
        by (auto simp: res'_def Let_def split: if_splits)
      from brkF have brk_eq: "brk = False" by simp
      have "length xs = length res'"
        by (rule "1.IH"[OF off guards res'_def False adv brk_eq rec])
      with len' show ?thesis by simp
    qed
  qed
qed


lemma GetSlice_length:
  assumes "GetSlice t ranges = Inr xs"
  shows "length xs = nat (tNilaiTotalElemen (map (\<lambda>r. wrapInt (snd r - fst r)) ranges))"
proof -
  from assms obtain ds where ds: "sliceShapeLoop (Shape t) 0 ranges = Inr ds"
    unfolding GetSlice_def by (auto split: if_splits sum.splits)
  then have ds_eq: "ds = map (\<lambda>r. wrapInt (snd r - fst r)) ranges"
    by (rule sliceShapeLoop_shape)
  define resultSize where
    "resultSize = (case zeroDimLoop 1 ds of (n, z) \<Rightarrow> if z then 0 else n)"
  have rs: "resultSize = tNilaiTotalElemen ds"
    unfolding resultSize_def zeroDimLoop_totalLoop
    by (cases ds) (simp_all add: tNilaiTotalElemen_def)
  from assms ds have
    "resultSize = 0 \<and> xs = replicate (nat resultSize) 0
     \<or> (length (Data t) > 0 \<and> xs = (replicate (nat resultSize) 0)[0 := Data t ! 0])
     \<or> mainLoop t ranges resultSize (map (\<lambda>i. fst (ranges ! i)) [0..<length (Shape t)]) 0
           (replicate (nat resultSize) 0) = Inr xs"
    unfolding GetSlice_def resultSize_def[symmetric]
    by (simp add: Let_def resultSize_def[symmetric] split: if_splits)
  then have "length xs = nat resultSize"
    by (auto dest: mainLoop_length)
  then show ?thesis by (simp add: rs ds_eq)
qed


lemma selection_length:
  fixes t :: "('a::zero) Tensor"
  assumes wf: "int (length (Data t)) = getTotalElements t"
    and sel: "selection t ranges = Inr (d, cs, st)"
    and T: "tNilaiTotalElemen cs > 0"
  shows "int (length d) = tNilaiTotalElemen cs"
proof (cases "\<exists>r0 rest. ranges = Some r0 # rest")
  case True
  then obtain r0 rest where r: "ranges = Some r0 # rest" by blast
  with sel have "GetSlice t r0 = Inr d" and "cs = map (\<lambda>r. wrapInt (snd r - fst r)) r0"
    by (auto simp: selection_def Let_def split: if_splits sum.splits)
  then have "length d = nat (tNilaiTotalElemen cs)"
    using GetSlice_length by blast
  with T show ?thesis by simp
next
  case False
  then have "selection t ranges = Inr (Data t, Shape t, Strides t)"
    by (auto simp: selection_def split: list.splits option.splits)
  with sel have "d = Data t" "cs = Shape t" by simp_all
  with wf show ?thesis by (simp add: getTotalElements_def tNilaiTotalElemen_def)
qed

lemma makeBatch_ok:
  assumes len: "int (length d) = T" and S: "S > 0" and k: "int k * S < T"
  shows "makeBatch t d cs st T es S n (int k) =
           Inr \<lparr>Name = Name t, Shape = cs, DataType = DataType t, Strides = st,
                Data = take (nat (min ((int k + 1) * S) T - int k * S)) (drop (nat (int k * S)) d),
                NumDimensions = int (length cs), TotalElements = T,
                DataSizeBytes = (min ((int k + 1) * S) T - int k * S) * es,
                BatchInfo = Some \<lparr>BatchSize = S, NumBatches = n, CurrentBatchIndex = int k\<rparr>\<rparr>"
proof -
  have e: "(if int k * S + S > T then T else int k * S + S) = min ((int k + 1) * S) T"
    by (simp add: min_def algebra_simps)
  have lt: "\<not> int k * S \<ge> min ((int k + 1) * S) T"
    using S k by (simp add: min_def algebra_simps)
  have "0 \<le> int k * S" using S by (intro mult_nonneg_nonneg) simp_all
  then have nonneg: "\<not> int k * S < 0" by simp
  have le: "\<not> min ((int k + 1) * S) T > int (length d)" using len by simp
  show ?thesis
    unfolding makeBatch_def Let_def e using lt nonneg le by simp
qed


text \<open>
  Claim C3. For a tensor whose buffer holds its total elements, a selection of
  \<open>T > 0\<close> elements and a batch size \<open>S > 0\<close>: \<open>GetDataForInference\<close> returns
  \<open>\<lceil>T / S\<rceil>\<close> envelopes; envelope \<open>k\<close> carries the window \<open>[k*S, min((k+1)*S, T))\<close> of
  the selection's data (the data of the one envelope returned for batch size 0), with the
  batch info \<open>{S, \<lceil>T / S\<rceil>, k}\<close> and a size in bytes of the window length times the
  element size; every envelope repeats the selection's name, shape, strides, data type
  and total elements; and the buffers, concatenated in order, are the selection's data.
\<close>

theorem GetDataForInference_batches:
  fixes t :: "('a::zero) Tensor"
  assumes wf: "int (length (Data t)) = getTotalElements t"
    and sel: "selection t ranges = Inr (d, cs, st)"
    and T: "tNilaiTotalElemen cs > 0"
    and S: "S > 0"
    and es: "GetElementSize (DataType t) = Inr es"
  shows "\<exists>envs u.
           GetDataForInference t ranges S = Inr envs
         \<and> GetDataForInference t ranges 0 = Inr [u]
         \<and> int (length envs) = ceilDiv (tNilaiTotalElemen cs) S
         \<and> (\<forall>k < length envs.
               Data (envs ! k)
                 = take (nat (min ((int k + 1) * S) (tNilaiTotalElemen cs) - int k * S))
                     (drop (nat (int k * S)) (Data u))
             \<and> BatchInfo (envs ! k)
                 = Some \<lparr>BatchSize = S, NumBatches = ceilDiv (tNilaiTotalElemen cs) S,
                         CurrentBatchIndex = int k\<rparr>
             \<and> DataSizeBytes (envs ! k)
                 = (min ((int k + 1) * S) (tNilaiTotalElemen cs) - int k * S) * es
             \<and> Name (envs ! k) = Name t \<and> Shape (envs ! k) = cs
             \<and> DataType (envs ! k) = DataType t \<and> Strides (envs ! k) = st
             \<and> NumDimensions (envs ! k) = int (length cs)
             \<and> TotalElements (envs ! k) = tNilaiTotalElemen cs)
         \<and> concat (map Data envs) = Data u"
proof -
  define T where "T = tNilaiTotalElemen cs"
  define n where "n = ceilDiv T S"
  define env where "env = (\<lambda>k::nat.
     \<lparr>Name = Name t, Shape = cs, DataType = DataType t, Strides = st,
      Data = take (nat (min ((int k + 1) * S) T - int k * S)) (drop (nat (int k * S)) d),
      NumDimensions = int (length cs), TotalElements = T,
      DataSizeBytes = (min ((int k + 1) * S) T - int k * S) * es,
      BatchInfo = Some \<lparr>BatchSize = S, NumBatches = n, CurrentBatchIndex = int k\<rparr>\<rparr>)"
  define u where "u =
     \<lparr>Name = Name t, Shape = cs, DataType = DataType t, Strides = st, Data = d,
      NumDimensions = int (length cs), TotalElements = T, DataSizeBytes = wrapInt (T * es),
      BatchInfo = None :: BatchInfo option\<rparr>"
  have Tpos: "T > 0" using T by (simp add: T_def)
  have len: "int (length d) = T"
    unfolding T_def using wf sel T by (rule selection_length)
  have npos: "n > 0" unfolding n_def using S Tpos by (rule ceilDiv_pos)
  have lo: "(n - 1) * S < T" and hi: "T \<le> n * S"
    unfolding n_def using ceilDiv_bounds[OF S] by blast+
  have start_lt: "int k * S < T" if "k < nat n" for k
  proof -
    from that have "int k \<le> n - 1" by simp
    then have "int k * S \<le> (n - 1) * S" using S by (simp add: mult_right_mono)
    with lo show ?thesis by simp
  qed
  have body: "makeBatch t d cs st T es S n (int k) = Inr (env k)" if "k \<in> set [0..<nat n]" for k
    unfolding env_def using len S start_lt that by (intro makeBatch_ok) simp_all
  have loop: "batchLoop (makeBatch t d cs st T es S n) [0..<nat n] = Inr (map env [0..<nat n])"
    using body by (rule batchLoop_all_ok)
  have batched: "GetDataForInference t ranges S = Inr (map env [0..<nat n])"
    unfolding GetDataForInference_def selectionTotal_eq
    using sel es S Tpos npos loop
    by (simp add: T_def[symmetric] n_def[symmetric] Let_def)
  have unbatched: "GetDataForInference t ranges 0 = Inr [u]"
    unfolding GetDataForInference_def selectionTotal_eq
    using sel es by (simp add: T_def[symmetric] u_def)
  have chunk: "Data (env k) = take (nat S) (drop (k * nat S) d)" for k
  proof -
    have "take (nat (min ((int k + 1) * S) T - int k * S)) (drop (nat (int k * S)) d)
            = take (nat S) (drop (nat (int k * S)) d)"
    proof (cases "(int k + 1) * S \<le> T")
      case True
      then show ?thesis by (simp add: min_def algebra_simps)
    next
      case False
      then have "length (drop (nat (int k * S)) d) \<le> nat (T - int k * S)"
        using len by simp
      moreover from False have "nat (T - int k * S) \<le> nat S" by (simp add: algebra_simps)
      ultimately show ?thesis using False by (simp add: min_def)
    qed
    moreover have "nat (int k * S) = k * nat S" using S by (simp add: nat_mult_distrib)
    ultimately show ?thesis by (simp add: env_def)
  qed
  have "concat (map Data (map env [0..<nat n])) = take (nat n * nat S) d"
    using concat_chunks[of "nat S" d "nat n"] by (simp add: chunk comp_def)
  moreover have "length d \<le> nat n * nat S"
  proof -
    have "int (length d) \<le> int (nat n * nat S)" using len hi npos S by simp
    then show ?thesis by linarith
  qed
  ultimately have cat: "concat (map Data (map env [0..<nat n])) = Data u"
    by (simp add: u_def)
  have each: "\<forall>k < length (map env [0..<nat n]).
               Data (map env [0..<nat n] ! k)
                 = take (nat (min ((int k + 1) * S) T - int k * S)) (drop (nat (int k * S)) (Data u))
             \<and> BatchInfo (map env [0..<nat n] ! k)
                 = Some \<lparr>BatchSize = S, NumBatches = n, CurrentBatchIndex = int k\<rparr>
             \<and> DataSizeBytes (map env [0..<nat n] ! k)
                 = (min ((int k + 1) * S) T - int k * S) * es
             \<and> Name (map env [0..<nat n] ! k) = Name t \<and> Shape (map env [0..<nat n] ! k) = cs
             \<and> DataType (map env [0..<nat n] ! k) = DataType t
             \<and> Strides (map env [0..<nat n] ! k) = st
             \<and> NumDimensions (map env [0..<nat n] ! k) = int (length cs)
             \<and> TotalElements (map env [0..<nat n] ! k) = T"
    by (simp add: env_def u_def)
  have count: "int (length (map env [0..<nat n])) = n" using npos by simp
  from batched unbatched count each cat show ?thesis
    unfolding T_def[symmetric] n_def[symmetric] by blast
qed

theorem GetDataForInference_batches_witness:
  "\<exists>envs. GetDataForInference
             \<lparr>Name = ''t'', Shape = [2, 3], DataType = ''int64'', Strides = [3, 1],
                Data = [1, 2, 3, 4, 5, 6 :: int]\<rparr> [None] 4 = Inr envs
         \<and> int (length envs) = ceilDiv 6 4
         \<and> BatchInfo (envs ! 1)
              = Some \<lparr>BatchSize = 4, NumBatches = ceilDiv 6 4, CurrentBatchIndex = 1\<rparr>
         \<and> Data (envs ! 1) = [5, 6]
         \<and> DataSizeBytes (envs ! 1) = 16
         \<and> concat (map Data envs) = [1, 2, 3, 4, 5, 6]"
proof -
  let ?t = "\<lparr>Name = ''t'', Shape = [2, 3], DataType = ''int64'', Strides = [3, 1],
              Data = [1, 2, 3, 4, 5, 6 :: int]\<rparr>"
  have wf: "int (length (Data ?t)) = getTotalElements ?t"
    by (simp add: getTotalElements_def wrapInt_def)
  have sel: "selection ?t [None] = Inr ([1, 2, 3, 4, 5, 6], [2, 3], [3, 1])"
    by (simp add: selection_def)
  have T: "tNilaiTotalElemen [2, 3] = 6"
    by (simp add: tNilaiTotalElemen_def wrapInt_def)
  have es: "GetElementSize (DataType ?t) = Inr 8"
    by (simp add: GetElementSize_def DataTypeFloat32_def DataTypeFloat64_def
          DataTypeInt32_def DataTypeInt64_def)
  have n: "ceilDiv 6 4 = 2"
    by (simp add: ceilDiv_def ceiling_divide_eq_div_numeral)
  have unb: "GetDataForInference ?t [None] 0
               = Inr [\<lparr>Name = ''t'', Shape = [2, 3], DataType = ''int64'', Strides = [3, 1],
                        Data = [1, 2, 3, 4, 5, 6], NumDimensions = 2, TotalElements = 6,
                        DataSizeBytes = 48, BatchInfo = None\<rparr>]"
    using es by (simp add: GetDataForInference_def selection_def wrapInt_def)
  from GetDataForInference_batches[OF wf sel _ _ es, of 4]
  obtain envs u where
    r: "GetDataForInference ?t [None] 4 = Inr envs"
       "GetDataForInference ?t [None] 0 = Inr [u]"
       "int (length envs) = ceilDiv 6 4"
       "\<forall>k < length envs.
           Data (envs ! k) = take (nat (min ((int k + 1) * 4) 6 - int k * 4))
                               (drop (nat (int k * 4)) (Data u))
         \<and> BatchInfo (envs ! k)
             = Some \<lparr>BatchSize = 4, NumBatches = ceilDiv 6 4, CurrentBatchIndex = int k\<rparr>
         \<and> DataSizeBytes (envs ! k) = (min ((int k + 1) * 4) 6 - int k * 4) * 8"
       "concat (map Data envs) = Data u"
    unfolding T by force
  from r(2) unb have u: "Data u = [1, 2, 3, 4, 5, 6]" by auto
  from r(3) n have "1 < length envs" by simp
  with r(4) have "Data (envs ! 1) = take (nat (min ((int 1 + 1) * 4) 6 - int 1 * 4))
                               (drop (nat (int 1 * 4)) (Data u))
         \<and> BatchInfo (envs ! 1)
             = Some \<lparr>BatchSize = 4, NumBatches = ceilDiv 6 4, CurrentBatchIndex = int 1\<rparr>
         \<and> DataSizeBytes (envs ! 1) = (min ((int 1 + 1) * 4) 6 - int 1 * 4) * 8"
    by blast
  with r(1,3,5) u show ?thesis by simp
qed

subsection \<open>Strides\<close>

lemma stridesLoop_length: "length (stridesLoop shape) = length shape"
  by (induction shape rule: stridesLoop.induct) (simp_all add: Let_def)

lemma stridesLoop_nonempty: "shape \<noteq> [] \<Longrightarrow> stridesLoop shape \<noteq> []"
  using stridesLoop_length[of shape] by auto

lemma stridesLoop_last: "shape \<noteq> [] \<Longrightarrow> last (stridesLoop shape) = 1"
proof (induction shape rule: stridesLoop.induct)
  case (3 d e ds)
  have "stridesLoop (e # ds) \<noteq> []" by (rule stridesLoop_nonempty) simp
  with 3 show ?case by (simp add: Let_def)
qed simp_all

lemma stridesLoop_step:
  "Suc i < length shape \<Longrightarrow>
     stridesLoop shape ! i =
       (if shape ! Suc i = 0 then 0 else wrapInt (stridesLoop shape ! Suc i * shape ! Suc i))"
proof (induction shape arbitrary: i rule: stridesLoop.induct)
  case (3 d e ds)
  show ?case
  proof (cases i)
    case 0
    then show ?thesis
      by (cases "stridesLoop (e # ds)") (use stridesLoop_length[of "e # ds"] in \<open>simp_all add: Let_def\<close>)
  next
    case (Suc j)
    with 3 show ?thesis by (simp add: Let_def)
  qed
qed simp_all

text \<open>
  Without wrap-around, that is for positive dimensions whose product is below \<open>2^63\<close>,
  the loops compute the products: the total is the product of the dimensions and the
  stride of a dimension is the product of the dimensions after it.
\<close>

lemma prod_list_pos: "\<forall>d \<in> set ds. 0 < d \<Longrightarrow> 0 < prod_list ds"
  for ds :: "int list"
  by (induction ds) simp_all

lemma totalLoop_prod:
  "0 < acc \<Longrightarrow> \<forall>d \<in> set ds. 0 < d \<Longrightarrow> acc * prod_list ds < 2 ^ 63
     \<Longrightarrow> totalLoop acc ds = acc * prod_list ds"
proof (induction ds arbitrary: acc)
  case Nil
  then show ?case by simp
next
  case (Cons d ds)
  from Cons.prems have d: "0 < d" and ds: "\<forall>d \<in> set ds. 0 < d" by simp_all
  from ds have p: "1 \<le> prod_list ds" using prod_list_pos[of ds] by simp
  from Cons.prems(1) d have ad: "0 < acc * d" by simp
  then have "acc * d * 1 \<le> acc * d * prod_list ds"
    using p by (intro mult_left_mono) simp_all
  with Cons.prems(3) have "acc * d < 2 ^ 63" by (simp add: mult.assoc)
  with ad have w: "wrapInt (acc * d) = acc * d" by (intro wrapInt_small) simp_all
  have "totalLoop (acc * d) ds = acc * d * prod_list ds"
    using ad ds Cons.prems(3) by (intro Cons.IH) (simp_all add: mult.assoc)
  with d w show ?case by (simp add: mult.assoc)
qed

lemma stridesLoop_prod:
  "\<forall>d \<in> set shape. 0 < d \<Longrightarrow> prod_list shape < 2 ^ 63 \<Longrightarrow> i < length shape
     \<Longrightarrow> stridesLoop shape ! i = prod_list (drop (Suc i) shape)"
proof (induction shape arbitrary: i rule: stridesLoop.induct)
  case 1
  then show ?case by simp
next
  case (2 d)
  then show ?case by simp
next
  case (3 d e ds)
  from "3.prems" have d: "0 < d" and rest: "\<forall>x \<in> set (e # ds). 0 < x" by simp_all
  from rest have pr: "0 < prod_list (e # ds)" by (rule prod_list_pos)
  have "1 * prod_list (e # ds) \<le> d * prod_list (e # ds)"
    using d pr by (intro mult_right_mono) simp_all
  with "3.prems"(2) have fits: "prod_list (e # ds) < 2 ^ 63" by simp
  have ih: "stridesLoop (e # ds) ! j = prod_list (drop (Suc j) (e # ds))"
    if "j < length (e # ds)" for j
    using rest fits that by (rule "3.IH")
  have "stridesLoop (e # ds) \<noteq> []" by (rule stridesLoop_nonempty) simp
  then have hd_r: "hd (stridesLoop (e # ds)) = prod_list ds"
    using ih[of 0] by (simp add: hd_conv_nth)
  have w: "wrapInt (prod_list ds * e) = prod_list ds * e"
    using pr fits by (intro wrapInt_small) (simp_all add: mult.commute)
  from rest have e: "e \<noteq> 0" by auto
  show ?case
  proof (cases i)
    case 0
    with e hd_r w show ?thesis by (simp add: Let_def mult.commute)
  next
    case (Suc j)
    with "3.prems"(3) ih[of j] show ?thesis by (simp add: Let_def)
  qed
qed

text \<open>
  The strides \<open>NewTensor\<close> computes follow the stride rule when the product of the
  dimensions is below \<open>2^63\<close>: the last one is 1 and each other one is the product of
  the next stride and the next dimension when the shape has no zero dimension; all are 0
  when it has one, and there are none for rank 0.
\<close>

lemma NewTensor_strides:
  assumes "NewTensor T name shape dt = Inr (t :: ('a::zero) Tensor)"
    and fits: "prod_list shape < 2 ^ 63"
  shows "length (Strides t) = length shape"
    and "0 \<notin> set shape \<Longrightarrow> shape \<noteq> [] \<Longrightarrow> last (Strides t) = 1"
    and "0 \<notin> set shape \<Longrightarrow> Suc i < length shape \<Longrightarrow>
           Strides t ! i = Strides t ! Suc i * shape ! Suc i"
    and "0 \<in> set shape \<Longrightarrow> Strides t = replicate (length shape) 0"
proof -
  from assms have nonneg: "\<forall>d \<in> set shape. 0 \<le> d"
    by (auto simp: NewTensor_def Let_def split: if_splits)
  have pos: "\<forall>d \<in> set shape. 0 < d" if "0 \<notin> set shape"
    using that nonneg by (metis order_le_less)
  have total: "totalLoop 1 shape = prod_list shape" if "0 \<notin> set shape"
    using totalLoop_prod[of 1 shape] pos[OF that] fits by simp
  have zero: "totalLoop acc ds = 0" if "0 \<in> set ds" for acc ds
    using that by (induction ds arbitrary: acc) auto
  from assms have st: "Strides t = makeStrides (if length shape > 0 then totalLoop 1 shape else 1) shape"
    by (auto simp: NewTensor_def Let_def zeroDimLoop_totalLoop split: if_splits)
  have filled: "Strides t = stridesLoop shape" if "0 \<notin> set shape" "shape \<noteq> []"
    using that total[OF that(1)] prod_list_pos[OF pos[OF that(1)]]
    by (simp add: st makeStrides_def)
  show "length (Strides t) = length shape"
    by (simp add: st makeStrides_def stridesLoop_length)
  show "last (Strides t) = 1" if "0 \<notin> set shape" "shape \<noteq> []"
    using that by (simp add: filled stridesLoop_last)
  show "Strides t ! i = Strides t ! Suc i * shape ! Suc i" if "0 \<notin> set shape" "Suc i < length shape"
  proof -
    from that have ne: "shape \<noteq> []" by auto
    have "stridesLoop shape ! i = prod_list (drop (Suc i) shape)"
      using pos[OF that(1)] fits that(2) by (intro stridesLoop_prod) simp_all
    moreover have "stridesLoop shape ! Suc i = prod_list (drop (Suc (Suc i)) shape)"
      using pos[OF that(1)] fits that(2) by (intro stridesLoop_prod) simp_all
    moreover have "drop (Suc i) shape = shape ! Suc i # drop (Suc (Suc i)) shape"
      using that(2) by (simp add: Cons_nth_drop_Suc)
    ultimately show ?thesis
      by (simp add: filled[OF that(1) ne] mult.commute)
  qed
  show "Strides t = replicate (length shape) 0" if "0 \<in> set shape"
    using that zero[of shape 1] by (auto simp: st makeStrides_def)
qed

text \<open>
  Claim C2. The claim holds for the strides of \<open>NewTensor\<close> when the product of the
  dimensions is in the range of \<open>int\<close> (above). The strides
  recomputed on load, when the metadata file has no \<open>strides\<close> key, break it for a shape
  with a zero dimension: the loop's product is not reset to 0 at the zero dimension, so
  the test \<open>totalElements > 0\<close> passes and the stride loop runs. For the shape \<open>[0]\<close> the
  loaded strides are \<open>[1]\<close>, where the claim (and \<open>NewTensor\<close>) give \<open>[0]\<close>.
\<close>

theorem loadTensorMetadataInternal_zero_dim_strides:
  "loadTensorMetadataInternal
     \<lparr>dataDir = ''d'',
      files = Map.empty(''d/t.meta'' \<mapsto>
                ''name:t'' @ [CHR 0x0A] @ ''shape:0'' @ [CHR 0x0A] @ ''datatype:float32''
                @ [CHR 0x0A]),
      index = NewInMemoryIndex\<rparr>
     ''d/t.meta''
   = Inr \<lparr>Name = ''t'', Shape = [0], DataType = ''float32'', Strides = [1]\<rparr>
   \<and> (NewTensor TFloat32 ''t'' [0] ''float32'' :: error + 32 word Tensor)
       = Inr \<lparr>Name = ''t'', Shape = [0], DataType = ''float32'', Strides = [0], Data = []\<rparr>"
  by code_simp

subsection \<open>The in-memory index\<close>

lemma ffilter_member_inter: "ffilter (\<lambda>x. x |\<in>| B) A = A |\<inter>| B"
  by auto

lemma mem_all_names:
  "x |\<in>| ffUnion (fmran m) \<longleftrightarrow> (\<exists>k names. fmlookup m k = Some names \<and> x |\<in>| names)"
proof
  assume "x |\<in>| ffUnion (fmran m)"
  then obtain names where "names |\<in>| fmran m" "x |\<in>| names"
    by (auto simp: ffUnion.rep_eq)
  then show "\<exists>k names. fmlookup m k = Some names \<and> x |\<in>| names"
    by (meson fmranE)
next
  assume "\<exists>k names. fmlookup m k = Some names \<and> x |\<in>| names"
  then obtain k names where "fmlookup m k = Some names" "x |\<in>| names" by blast
  then have "names |\<in>| fmran m" by (auto intro: fmranI)
  with \<open>x |\<in>| names\<close> show "x |\<in>| ffUnion (fmran m)"
    by (auto simp: ffUnion.rep_eq)
qed

lemma indexed_addName:
  "indexed (addName m k name) k' = (if k' = k then finsert name (indexed m k) else indexed m k')"
  by (auto simp: indexed_def addName_def split: option.splits)

lemma all_names_addName:
  "ffUnion (fmran (addName m k name)) = finsert name (ffUnion (fmran m))"
proof (rule fset_eqI)
  fix x
  show "x |\<in>| ffUnion (fmran (addName m k name)) \<longleftrightarrow> x |\<in>| finsert name (ffUnion (fmran m))"
  proof (cases "fmlookup m k")
    case None
    then show ?thesis
      by (simp add: mem_all_names addName_def) (metis option.distinct(1))
  next
    case (Some old)
    then show ?thesis
      by (simp add: mem_all_names addName_def) (metis finsert_iff option.inject)
  qed
qed

text \<open>
  Claim C8. In every state of the index, \<open>Query\<close> with both filters returns the
  intersection of the set indexed under the data type and the set indexed under the rank;
  with one filter, the set indexed under it (empty when the key is absent); with none
  (the empty string and \<open>-1\<close>), all the names indexed under some data type. \<open>Add\<close> files
  a tensor of shape \<open>[0]\<close> under rank 0, and adds its name to the names \<open>Query\<close> returns
  without filters.
\<close>

theorem Query_filters:
  "Query idx dt nd =
     (if dt \<noteq> [] \<and> nd \<noteq> - 1
      then indexed (ByDataType idx) dt |\<inter>| indexed (ByNumDimensions idx) nd
      else if dt \<noteq> [] then indexed (ByDataType idx) dt
      else if nd \<noteq> - 1 then indexed (ByNumDimensions idx) nd
      else ffUnion (fmran (ByDataType idx)))
   \<and> indexRank [0] = 0
   \<and> indexed (ByNumDimensions (Add idx (m\<lparr>Shape := [0]\<rparr>))) 0
       = finsert (Name m) (indexed (ByNumDimensions idx) 0)
   \<and> Query (Add idx m) [] (- 1) = finsert (Name m) (Query idx [] (- 1))"
proof -
  have q: "Query idx dt nd =
     (if dt \<noteq> [] \<and> nd \<noteq> - 1
      then indexed (ByDataType idx) dt |\<inter>| indexed (ByNumDimensions idx) nd
      else if dt \<noteq> [] then indexed (ByDataType idx) dt
      else if nd \<noteq> - 1 then indexed (ByNumDimensions idx) nd
      else ffUnion (fmran (ByDataType idx)))" for idx dt nd
    by (auto simp: Query_def indexed_def ffilter_member_inter split: option.splits)
  have r: "indexRank [0] = 0"
    by (simp add: indexRank_def)
  have a: "indexed (ByNumDimensions (Add idx (m\<lparr>Shape := [0]\<rparr>))) 0
             = finsert (Name m) (indexed (ByNumDimensions idx) 0)"
    by (simp add: Add_def Let_def r indexed_addName)
  have u: "Query (Add idx m) [] (- 1) = finsert (Name m) (Query idx [] (- 1))"
    by (simp add: q Add_def Let_def all_names_addName)
  from q r a u show ?thesis by blast
qed

lemma indexed_empty: "indexed fmempty k = {||}"
  by (simp add: indexed_def)

theorem Query_filters_witness:
  "Query (Add (Add NewInMemoryIndex
                 \<lparr>Name = ''a'', Shape = [0], DataType = ''float32'', Strides = [0]\<rparr>)
             \<lparr>Name = ''b'', Shape = [2, 3], DataType = ''float32'', Strides = [3, 1]\<rparr>)
         ''float32'' 0 = {|''a''|}"
  using Query_filters
          [THEN conjunct1,
           of "Add (Add NewInMemoryIndex
                 \<lparr>Name = ''a'', Shape = [0], DataType = ''float32'', Strides = [0]\<rparr>)
                 \<lparr>Name = ''b'', Shape = [2, 3], DataType = ''float32'', Strides = [3, 1]\<rparr>"
              "''float32''" 0]
  by (auto simp: Add_def Let_def indexed_addName indexRank_def NewInMemoryIndex_def
        indexed_empty)

subsection \<open>Slicing\<close>

text \<open>
  Claim C5. The claim says that \<open>GetSlice\<close> fails exactly when a range leaves
  \<open>0 \<le> lo \<le> hi \<le> shape[i]\<close> or the number of ranges is not the rank. On a tensor with
  no elements the first test of \<open>GetSlice\<close> rejects every request whose first range is
  not empty, also one whose ranges all lie within the shape and which selects nothing:
  for the shape \<open>[3, 0]\<close> and the ranges \<open>[0,2), [0,0)\<close> the code fails with
  "cannot get a non-empty slice from an empty tensor".
\<close>

theorem GetSlice_rejects_valid_ranges_on_empty_tensor:
  "(NewTensor TFloat32 ''e'' [3, 0] ''float32'' :: error + 32 word Tensor)
     = Inr \<lparr>Name = ''e'', Shape = [3, 0], DataType = ''float32'', Strides = [0, 0], Data = []\<rparr>
   \<and> length [(0, 2), (0, 0) :: int \<times> int] = length [3, 0 :: int]
   \<and> list_all2 (\<lambda>r d. 0 \<le> fst r \<and> fst r \<le> snd r \<and> snd r \<le> d) [(0, 2), (0, 0)] [3, 0 :: int]
   \<and> GetSlice \<lparr>Name = ''e'', Shape = [3, 0], DataType = ''float32'', Strides = [0, 0],
                 Data = ([] :: 32 word list)\<rparr> [(0, 2), (0, 0)]
       = Inl SliceFromEmptyTensor"
  by (simp add: NewTensor_def makeStrides_def GetSlice_def getTotalElements_def
        DataTypeFloat32_def wrapInt_def)

subsection \<open>Missing keys of a metadata file\<close>

lemma parseLines_keeps_shape:
  "parseLines path tm ls = Inr tm'
     \<Longrightarrow> \<not> list_ex (\<lambda>line. line \<noteq> [] \<and> lineKey line = Some ''shape'') ls
     \<Longrightarrow> fShape tm' = fShape tm"
proof (induction ls arbitrary: tm)
  case Nil
  then show ?case by simp
next
  case (Cons line rest)
  show ?case
  proof (cases "line = []")
    case True
    with Cons show ?thesis by simp
  next
    case False
    with Cons.prems obtain k v where kv: "SplitN2 line (CHR '':'') = [k, v]"
      by (auto split: list.splits)
    with False Cons.prems(2) have key: "TrimSpace k \<noteq> ''shape''"
      by (simp add: lineKey_def)
    from Cons.prems(2) have rest: "\<not> list_ex (\<lambda>line. line \<noteq> [] \<and> lineKey line = Some ''shape'') rest"
      by simp
    from Cons.prems(1) False kv key obtain tm1 where
      "parseLines path tm1 rest = Inr tm'" "fShape tm1 = fShape tm"
      by (auto simp: Let_def split: if_splits sum.splits)
    with Cons.IH[OF _ rest] show ?thesis by simp
  qed
qed

lemma parseLines_keeps_datatype:
  "parseLines path tm ls = Inr tm'
     \<Longrightarrow> \<not> list_ex (\<lambda>line. line \<noteq> [] \<and> lineKey line = Some ''datatype'') ls
     \<Longrightarrow> fDataType tm' = fDataType tm"
proof (induction ls arbitrary: tm)
  case Nil
  then show ?case by simp
next
  case (Cons line rest)
  show ?case
  proof (cases "line = []")
    case True
    with Cons show ?thesis by simp
  next
    case False
    with Cons.prems obtain k v where kv: "SplitN2 line (CHR '':'') = [k, v]"
      by (auto split: list.splits)
    with False Cons.prems(2) have key: "TrimSpace k \<noteq> ''datatype''"
      by (simp add: lineKey_def)
    from Cons.prems(2) have rest: "\<not> list_ex (\<lambda>line. line \<noteq> [] \<and> lineKey line = Some ''datatype'') rest"
      by simp
    from Cons.prems(1) False kv key obtain tm1 where
      "parseLines path tm1 rest = Inr tm'" "fDataType tm1 = fDataType tm"
      by (auto simp: Let_def split: if_splits sum.splits)
    with Cons.IH[OF _ rest] show ?thesis by simp
  qed
qed

lemma parseLines_keeps_name:
  "parseLines path tm ls = Inr tm'
     \<Longrightarrow> \<not> list_ex (\<lambda>line. line \<noteq> [] \<and> lineKey line = Some ''name'') ls
     \<Longrightarrow> fName tm' = fName tm"
proof (induction ls arbitrary: tm)
  case Nil
  then show ?case by simp
next
  case (Cons line rest)
  show ?case
  proof (cases "line = []")
    case True
    with Cons show ?thesis by simp
  next
    case False
    with Cons.prems obtain k v where kv: "SplitN2 line (CHR '':'') = [k, v]"
      by (auto split: list.splits)
    with False Cons.prems(2) have key: "TrimSpace k \<noteq> ''name''"
      by (simp add: lineKey_def)
    from Cons.prems(2) have rest: "\<not> list_ex (\<lambda>line. line \<noteq> [] \<and> lineKey line = Some ''name'') rest"
      by simp
    from Cons.prems(1) False kv key obtain tm1 where
      "parseLines path tm1 rest = Inr tm'" "fName tm1 = fName tm"
      by (auto simp: Let_def split: if_splits sum.splits)
    with Cons.IH[OF _ rest] show ?thesis by simp
  qed
qed

lemma parseLines_wellFormed:
  "list_all wellFormedLine ls \<Longrightarrow> \<exists>tm'. parseLines path tm ls = Inr tm'"
proof (induction ls arbitrary: tm)
  case Nil
  then show ?case by simp
next
  case (Cons line rest)
  from Cons.prems have rest: "list_all wellFormedLine rest" by simp
  show ?case
  proof (cases "line = []")
    case True
    with Cons.IH[OF rest] show ?thesis by simp
  next
    case False
    with Cons.prems obtain k v where kv: "SplitN2 line (CHR '':'') = [k, v]"
      and sh: "TrimSpace k = ''shape'' \<longrightarrow> \<not> isl (parseIntSlice (TrimSpace v))"
      and dt: "TrimSpace k = ''datatype'' \<longrightarrow> \<not> isl (GetElementSize (TrimSpace v))"
      and st: "TrimSpace k = ''strides'' \<longrightarrow> \<not> isl (parseIntSlice (TrimSpace v))"
      by (auto simp: wellFormedLine_def split: list.splits)
    have "\<exists>tm1. parseLines path tm (line # rest) = parseLines path tm1 rest"
      using False kv sh dt st
      by (cases "parseIntSlice (TrimSpace v)"; cases "GetElementSize (TrimSpace v)")
         (auto simp: Let_def)
    with Cons.IH[OF rest] show ?thesis by metis
  qed
qed

lemma parseLines_sets_shape:
  "parseLines path tm ls = Inr tm'
     \<Longrightarrow> fShape tm \<noteq> None \<or> list_ex (\<lambda>line. line \<noteq> [] \<and> lineKey line = Some ''shape'') ls
     \<Longrightarrow> fShape tm' \<noteq> None"
proof (induction ls arbitrary: tm)
  case Nil
  then show ?case by simp
next
  case (Cons line rest)
  show ?case
  proof (cases "line = []")
    case True
    with Cons show ?thesis by simp
  next
    case False
    with Cons.prems(1) obtain k v where kv: "SplitN2 line (CHR '':'') = [k, v]"
      by (auto split: list.splits)
    from Cons.prems(1) False kv obtain tm1 where
      step: "parseLines path tm1 rest = Inr tm'"
      and keep: "TrimSpace k \<noteq> ''shape'' \<longrightarrow> fShape tm1 = fShape tm"
      and set: "TrimSpace k = ''shape'' \<longrightarrow> fShape tm1 \<noteq> None"
      by (auto simp: Let_def split: if_splits sum.splits)
    from Cons.prems(2) False kv keep set
    have "fShape tm1 \<noteq> None
          \<or> list_ex (\<lambda>line. line \<noteq> [] \<and> lineKey line = Some ''shape'') rest"
      by (cases "TrimSpace k = ''shape''") (auto simp: lineKey_def)
    with Cons.IH[OF step] show ?thesis by simp
  qed
qed

lemma GetElementSize_nonempty: "GetElementSize dt = Inr n \<Longrightarrow> dt \<noteq> []"
  by (auto simp: GetElementSize_def DataTypeFloat32_def DataTypeFloat64_def DataTypeInt32_def
        DataTypeInt64_def split: if_splits)

lemma parseLines_sets_datatype:
  "parseLines path tm ls = Inr tm'
     \<Longrightarrow> fDataType tm \<noteq> []
         \<or> list_ex (\<lambda>line. line \<noteq> [] \<and> lineKey line = Some ''datatype'') ls
     \<Longrightarrow> fDataType tm' \<noteq> []"
proof (induction ls arbitrary: tm)
  case Nil
  then show ?case by simp
next
  case (Cons line rest)
  show ?case
  proof (cases "line = []")
    case True
    with Cons show ?thesis by simp
  next
    case False
    with Cons.prems(1) obtain k v where kv: "SplitN2 line (CHR '':'') = [k, v]"
      by (auto split: list.splits)
    from Cons.prems(1) False kv obtain tm1 where
      step: "parseLines path tm1 rest = Inr tm'"
      and keep: "TrimSpace k \<noteq> ''datatype'' \<longrightarrow> fDataType tm1 = fDataType tm"
      and set: "TrimSpace k = ''datatype'' \<longrightarrow> fDataType tm1 \<noteq> []"
      by (auto simp: Let_def split: if_splits sum.splits dest: GetElementSize_nonempty)
    from Cons.prems(2) False kv keep set
    have "fDataType tm1 \<noteq> []
          \<or> list_ex (\<lambda>line. line \<noteq> [] \<and> lineKey line = Some ''datatype'') rest"
      by (cases "TrimSpace k = ''datatype''") (auto simp: lineKey_def)
    with Cons.IH[OF step] show ?thesis by simp
  qed
qed

text \<open>
  Claim C4, as amended. A metadata file without the key \<open>shape\<close> or without the key
  \<open>datatype\<close> does not parse: the loader returns an error and no record. A file
  without the key \<open>name\<close> does not parse either when the base name of the file, less
  the suffix \<open>.meta\<close>, is empty. When that base name is not empty, the missing \<open>name\<close>
  is no error: a well-formed file with the keys \<open>shape\<close> and \<open>datatype\<close> and without
  the key \<open>name\<close> loads, and its record has the base name for its name.
\<close>

theorem loadTensorMetadataInternal_missing_keys:
  assumes "files s path = Some content"
  shows "(\<not> hasKey ''shape'' content \<or> \<not> hasKey ''datatype'' content
            \<longrightarrow> (\<exists>e. loadTensorMetadataInternal s path = Inl e))
       \<and> (\<not> hasKey ''name'' content \<and> TrimSuffix (Base path) ''.meta'' = []
            \<longrightarrow> (\<exists>e. loadTensorMetadataInternal s path = Inl e))
       \<and> (\<not> hasKey ''name'' content \<and> TrimSuffix (Base path) ''.meta'' \<noteq> []
          \<and> hasKey ''shape'' content \<and> hasKey ''datatype'' content \<and> wellFormed content
            \<longrightarrow> (\<exists>tm. loadTensorMetadataInternal s path = Inr tm
                     \<and> Name tm = TrimSuffix (Base path) ''.meta''))"
proof (cases "parseLines path \<lparr>fName = [], fShape = None, fDataType = [], fStrides = None\<rparr>
                (Split content (CHR 0x0A))")
  case (Inl e)
  then have "\<not> wellFormed content"
    using parseLines_wellFormed[of "Split content (CHR 0x0A)" path
            "\<lparr>fName = [], fShape = None, fDataType = [], fStrides = None\<rparr>"]
    by (auto simp: wellFormed_def)
  with assms Inl show ?thesis by (simp add: loadTensorMetadataInternal_def)
next
  case (Inr tm')
  have sh: "fShape tm' = None" if "\<not> hasKey ''shape'' content"
    using parseLines_keeps_shape[OF Inr] that by (simp add: hasKey_def)
  have dt: "fDataType tm' = []" if "\<not> hasKey ''datatype'' content"
    using parseLines_keeps_datatype[OF Inr] that by (simp add: hasKey_def)
  have nm: "fName tm' = []" if "\<not> hasKey ''name'' content"
    using parseLines_keeps_name[OF Inr] that by (simp add: hasKey_def)
  have sh': "fShape tm' \<noteq> None" if "hasKey ''shape'' content"
    using parseLines_sets_shape[OF Inr] that by (simp add: hasKey_def)
  have dt': "fDataType tm' \<noteq> []" if "hasKey ''datatype'' content"
    using parseLines_sets_datatype[OF Inr] that by (simp add: hasKey_def)
  have fails: "\<exists>e. loadTensorMetadataInternal s path = Inl e"
    if "fShape tm' = None \<or> fDataType tm' = []
        \<or> (fName tm' = [] \<and> TrimSuffix (Base path) ''.meta'' = [])"
    using assms Inr that
    by (auto simp: loadTensorMetadataInternal_def Let_def split: option.splits)
  have loads: "\<exists>tm. loadTensorMetadataInternal s path = Inr tm
                 \<and> Name tm = TrimSuffix (Base path) ''.meta''"
    if "fName tm' = []" "TrimSuffix (Base path) ''.meta'' \<noteq> []" "fShape tm' \<noteq> None"
       "fDataType tm' \<noteq> []"
    using assms Inr that
    by (auto simp: loadTensorMetadataInternal_def Let_def split: option.splits)
  from sh dt nm sh' dt' fails loads show ?thesis by blast
qed

text \<open>
  The claim as stated fails for the key \<open>name\<close>: this file has no such key and loads.
\<close>

theorem loadTensorMetadataInternal_missing_name_counterexample:
  "\<not> hasKey ''name'' (''shape:2,3'' @ [CHR 0x0A] @ ''datatype:float32'' @ [CHR 0x0A])
   \<and> loadTensorMetadataInternal
        \<lparr>dataDir = ''d'',
         files = Map.empty(''d/t.meta'' \<mapsto>
                   ''shape:2,3'' @ [CHR 0x0A] @ ''datatype:float32'' @ [CHR 0x0A]),
         index = NewInMemoryIndex\<rparr>
        ''d/t.meta''
      = Inr \<lparr>Name = ''t'', Shape = [2, 3], DataType = ''float32'', Strides = [3, 1]\<rparr>"
  by code_simp

theorem loadTensorMetadataInternal_missing_keys_witness:
  "(\<exists>e. loadTensorMetadataInternal
           \<lparr>dataDir = ''d'',
            files = Map.empty(''d/t.meta'' \<mapsto> ''name:t'' @ [CHR 0x0A] @ ''shape:2,3'' @ [CHR 0x0A]),
            index = NewInMemoryIndex\<rparr> ''d/t.meta'' = Inl e)
   \<and> \<not> hasKey ''datatype'' (''name:t'' @ [CHR 0x0A] @ ''shape:2,3'' @ [CHR 0x0A])
   \<and> (\<exists>e. loadTensorMetadataInternal
           \<lparr>dataDir = ''d'',
            files = Map.empty(''d/.meta'' \<mapsto>
                      ''shape:2,3'' @ [CHR 0x0A] @ ''datatype:float32'' @ [CHR 0x0A]),
            index = NewInMemoryIndex\<rparr> ''d/.meta'' = Inl e)
   \<and> TrimSuffix (Base ''d/.meta'') ''.meta'' = []
   \<and> (\<exists>tm. loadTensorMetadataInternal
           \<lparr>dataDir = ''d'',
            files = Map.empty(''d/t.meta'' \<mapsto>
                      ''shape:2,3'' @ [CHR 0x0A] @ ''datatype:float32'' @ [CHR 0x0A]),
            index = NewInMemoryIndex\<rparr> ''d/t.meta'' = Inr tm
          \<and> Name tm = ''t'')
   \<and> wellFormed (''shape:2,3'' @ [CHR 0x0A] @ ''datatype:float32'' @ [CHR 0x0A])"
proof -
  let ?c1 = "''name:t'' @ [CHR 0x0A] @ ''shape:2,3'' @ [CHR 0x0A]"
  let ?c2 = "''shape:2,3'' @ [CHR 0x0A] @ ''datatype:float32'' @ [CHR 0x0A]"
  have nk: "\<not> hasKey ''datatype'' ?c1"
    by code_simp
  have f1: "files \<lparr>dataDir = ''d'', files = Map.empty(''d/t.meta'' \<mapsto> ?c1),
                    index = NewInMemoryIndex\<rparr> ''d/t.meta'' = Some ?c1"
    by simp
  have f2: "files \<lparr>dataDir = ''d'', files = Map.empty(''d/.meta'' \<mapsto> ?c2),
                    index = NewInMemoryIndex\<rparr> ''d/.meta'' = Some ?c2"
    by simp
  have f3: "files \<lparr>dataDir = ''d'', files = Map.empty(''d/t.meta'' \<mapsto> ?c2),
                    index = NewInMemoryIndex\<rparr> ''d/t.meta'' = Some ?c2"
    by simp
  have keys: "\<not> hasKey ''name'' ?c2" "hasKey ''shape'' ?c2" "hasKey ''datatype'' ?c2"
    "wellFormed ?c2"
    by code_simp+
  have b2: "TrimSuffix (Base ''d/.meta'') ''.meta'' = []"
    by code_simp
  have b3: "TrimSuffix (Base ''d/t.meta'') ''.meta'' = ''t''"
    by code_simp
  from loadTensorMetadataInternal_missing_keys[OF f1] nk
  have r1: "\<exists>e. loadTensorMetadataInternal
           \<lparr>dataDir = ''d'', files = Map.empty(''d/t.meta'' \<mapsto> ?c1),
            index = NewInMemoryIndex\<rparr> ''d/t.meta'' = Inl e"
    by blast
  from loadTensorMetadataInternal_missing_keys[OF f2] keys(1) b2
  have r2: "\<exists>e. loadTensorMetadataInternal
           \<lparr>dataDir = ''d'', files = Map.empty(''d/.meta'' \<mapsto> ?c2),
            index = NewInMemoryIndex\<rparr> ''d/.meta'' = Inl e"
    by blast
  from loadTensorMetadataInternal_missing_keys[OF f3] keys b3
  have r3: "\<exists>tm. loadTensorMetadataInternal
           \<lparr>dataDir = ''d'', files = Map.empty(''d/t.meta'' \<mapsto> ?c2),
            index = NewInMemoryIndex\<rparr> ''d/t.meta'' = Inr tm \<and> Name tm = ''t''"
    by simp
  from r1 nk r2 b2 r3 keys(4) show ?thesis by blast
qed

subsection \<open>Decimal strings\<close>


lemma of_char_digitChar_nat: "d < 10 \<Longrightarrow> (of_char (digitChar d) :: nat) = 48 + d"
  by (simp add: digitChar_def)

lemma of_char_digitChar_int: "d < 10 \<Longrightarrow> (of_char (digitChar d) :: int) = 48 + int d"
proof -
  assume "d < 10"
  then have "int (of_char (digitChar d) :: nat) = 48 + int d"
    by (simp add: of_char_digitChar_nat)
  then show ?thesis by (simp add: of_nat_of_char)
qed

lemma digitValue_digitChar: "d < 10 \<Longrightarrow> digitValue (digitChar d) = Some (int d)"
  by (simp add: digitValue_def of_char_digitChar_int)

lemma digitsValue_append:
  "digitsValue acc (xs @ ys) =
     (case digitsValue acc xs of None \<Rightarrow> None | Some a \<Rightarrow> digitsValue a ys)"
  by (induction xs arbitrary: acc) (auto split: option.splits)

lemma natString_nonempty: "natString n \<noteq> []"
  by (subst natString.simps) simp

lemma digitsValue_natString:
  "digitsValue acc (natString n) = Some (acc * 10 ^ length (natString n) + int n)"
proof (induction n arbitrary: acc rule: natString.induct)
  case (1 n)
  show ?case
  proof (cases "n < 10")
    case True
    then show ?thesis
      by (subst (1 2) natString.simps) (simp add: digitValue_digitChar)
  next
    case False
    have "digitsValue acc (natString n)
            = digitsValue acc (natString (n div 10) @ [digitChar (n mod 10)])"
      using False by (subst natString.simps) simp
    also have "\<dots> = Some ((acc * 10 ^ length (natString (n div 10)) + int (n div 10)) * 10
                         + int (n mod 10))"
      using False by (simp add: digitsValue_append "1.IH" digitValue_digitChar)
    also have "length (natString n) = Suc (length (natString (n div 10)))"
      using False by (subst natString.simps) simp
    then have "(acc * 10 ^ length (natString (n div 10)) + int (n div 10)) * 10 + int (n mod 10)
                 = acc * 10 ^ length (natString n) + int n"
      by (simp add: algebra_simps zdiv_int zmod_int)
    finally show ?thesis .
  qed
qed

lemma decimalByte_digitChar: "d < 10 \<Longrightarrow> decimalByte (digitChar d)"
  by (simp add: decimalByte_def of_char_digitChar_nat)

lemma natString_bytes: "\<forall>c \<in> set (natString n). decimalByte c \<and> c \<noteq> CHR ''-'' \<and> c \<noteq> CHR ''+''"
proof (induction n rule: natString.induct)
  case (1 n)
  have d: "decimalByte (digitChar k) \<and> digitChar k \<noteq> CHR ''-'' \<and> digitChar k \<noteq> CHR ''+''"
    if "k < 10" for k
    using that of_char_digitChar_nat[of k]
    by (auto simp: decimalByte_def dest!: arg_cong[where f = "of_char :: char \<Rightarrow> nat"])
  show ?case
  proof (cases "n < 10")
    case True
    then show ?thesis by (subst natString.simps) (simp add: d)
  next
    case False
    with "1.IH" show ?thesis by (subst natString.simps) (simp add: d)
  qed
qed

lemma Itoa_nonempty: "Itoa i \<noteq> []"
  by (simp add: Itoa_def natString_nonempty)

lemma Itoa_bytes: "\<forall>c \<in> set (Itoa i). decimalByte c"
  using natString_bytes by (auto simp: Itoa_def decimalByte_def)

lemma Atoi_Itoa:
  assumes "- (2 ^ 63) \<le> i" "i \<le> 2 ^ 63 - 1"
  shows "Atoi (Itoa i) = Inr i"
proof (cases "i < 0")
  case True
  then show ?thesis
    using assms natString_nonempty[of "nat (- i)"]
    by (simp add: Atoi_def ParseInt_def Itoa_def digitsValue_natString)
next
  case False
  have "hd (natString (nat i)) \<noteq> CHR ''-''" "hd (natString (nat i)) \<noteq> CHR ''+''"
    using natString_bytes[of "nat i"] natString_nonempty[of "nat i"]
    by (metis hd_in_set)+
  with False show ?thesis
    using assms natString_nonempty[of "nat i"]
    by (simp add: Atoi_def ParseInt_def Itoa_def digitsValue_natString)
qed

subsection \<open>Trimming, splitting and joining\<close>

lemma leadingSpace_none:
  assumes "s \<noteq> []" "hd s \<notin> set (map hd encs)" "[] \<notin> set encs"
  shows "leadingSpace encs s = 0"
proof -
  have "take (length e) s \<noteq> e" if "e \<in> set encs" for e
  proof
    assume eq: "take (length e) s = e"
    from that assms(3) have "e \<noteq> []" by auto
    with eq assms(1) have "hd e = hd s" by (metis hd_take length_greater_0_conv)
    moreover from that have "hd e \<in> set (map hd encs)" by simp
    ultimately show False using assms(2) by simp
  qed
  then have "filter (\<lambda>e. take (length e) s = e) encs = []"
    by (simp add: filter_empty_conv)
  then show ?thesis by (simp add: leadingSpace_def)
qed

lemma leadingSpace_pos:
  assumes "leadingSpace encs s \<noteq> 0"
  obtains e where "e \<in> set encs" "take (length e) s = e" "leadingSpace encs s = length e"
proof -
  from assms obtain e es where f: "filter (\<lambda>e. take (length e) s = e) encs = e # es"
    and e: "leadingSpace encs s = length e"
    by (auto simp: leadingSpace_def split: list.splits)
  from f have "e \<in> set (filter (\<lambda>e. take (length e) s = e) encs)" by simp
  then have "e \<in> set encs" "take (length e) s = e" by simp_all
  with e that show thesis by blast
qed

lemma trimLeftWith_id: "leadingSpace encs s = 0 \<Longrightarrow> trimLeftWith encs s = s"
  by (subst trimLeftWith.simps) simp

lemma leadingSpace_Nil: "leadingSpace encs [] = 0"
  by (auto simp: leadingSpace_def split: list.splits dest!: filter_eq_ConsD)

lemma spaceEncodings_nonempty: "[] \<notin> set spaceEncodings" "[] \<notin> set (map rev spaceEncodings)"
  by (simp_all add: spaceEncodings_def)

lemma TrimSpace_Nil: "TrimSpace [] = []"
proof -
  have "trimLeftWith encs [] = []" for encs
    by (rule trimLeftWith_id) (rule leadingSpace_Nil)
  then show ?thesis by (simp add: TrimSpace_def)
qed

lemma TrimSpace_id:
  assumes "s \<noteq> []" "\<not> spaceStart (hd s)" "\<not> spaceEnd (last s)"
  shows "TrimSpace s = s"
proof -
  have l: "trimLeftWith spaceEncodings s = s"
    using assms(1,2) spaceEncodings_nonempty
    by (intro trimLeftWith_id leadingSpace_none) (simp_all add: spaceStart_def)
  have "hd (rev s) \<notin> set (map hd (map rev spaceEncodings))"
  proof -
    have "map hd (map rev spaceEncodings) = map last spaceEncodings"
      using spaceEncodings_nonempty(1) by (auto simp: hd_rev)
    with assms show ?thesis by (simp add: spaceEnd_def hd_rev)
  qed
  then have "trimLeftWith (map rev spaceEncodings) (rev s) = rev s"
    using assms(1) spaceEncodings_nonempty
    by (intro trimLeftWith_id leadingSpace_none) simp_all
  with l show ?thesis by (simp add: TrimSpace_def)
qed

lemma decimalByte_not_space: "decimalByte c \<Longrightarrow> \<not> spaceStart c \<and> \<not> spaceEnd c"
  by (auto simp: decimalByte_def spaceStart_def spaceEnd_def spaceEncodings_def
           dest!: arg_cong[where f = "of_char :: char \<Rightarrow> nat"])

lemma TrimSpace_decimal:
  assumes "s \<noteq> []" "\<forall>c \<in> set s. decimalByte c"
  shows "TrimSpace s = s"
  using assms decimalByte_not_space by (intro TrimSpace_id) auto

lemma Split_no_sep: "sep \<notin> set s \<Longrightarrow> Split s sep = [s]"
  by (induction s) auto

lemma Split_nonempty: "Split s sep \<noteq> []"
  by (induction s) (auto split: list.splits)

lemma Split_append_sep:
  "sep \<notin> set a \<Longrightarrow> Split (a @ sep # b) sep = a # Split b sep"
  by (induction a) (auto split: list.splits)

lemma Split_Join:
  assumes "parts \<noteq> []" "\<forall>p \<in> set parts. sep \<notin> set p"
  shows "Split (Join parts [sep]) sep = parts"
  using assms
proof (induction parts "[sep]" rule: Join.induct)
  case (3 x y ys)
  then show ?case by (simp add: Split_append_sep)
qed (simp_all add: Split_no_sep)

lemma SplitN2_key:
  assumes "sep \<notin> set k"
  shows "SplitN2 (k @ sep # v) sep = [k, v]"
proof -
  from assms have all: "\<forall>c \<in> set k. c \<noteq> sep" by auto
  then have "takeWhile (\<lambda>c. c \<noteq> sep) (k @ sep # v) = k"
    by (simp add: takeWhile_append2)
  moreover from all have "dropWhile (\<lambda>c. c \<noteq> sep) (k @ sep # v) = sep # v"
    by (simp add: dropWhile_append2)
  ultimately show ?thesis by (simp add: SplitN2_def)
qed

lemma Join_bytes: "\<forall>p \<in> set parts. \<forall>c \<in> set p. P c \<Longrightarrow> P sep
    \<Longrightarrow> \<forall>c \<in> set (Join parts [sep]). P c"
  by (induction parts "[sep]" rule: Join.induct) auto

lemma Join_nonempty: "parts \<noteq> [] \<Longrightarrow> \<forall>p \<in> set parts. p \<noteq> [] \<Longrightarrow> Join parts sep \<noteq> []"
  by (induction parts sep rule: Join.induct) auto

lemma Join_hd: "parts \<noteq> [] \<Longrightarrow> hd parts \<noteq> [] \<Longrightarrow> hd (Join parts sep) = hd (hd parts)"
  by (induction parts sep rule: Join.induct) auto

lemma Join_last:
  "parts \<noteq> [] \<Longrightarrow> \<forall>p \<in> set parts. p \<noteq> [] \<Longrightarrow> last (Join parts sep) = last (last parts)"
proof (induction parts sep rule: Join.induct)
  case (3 x y ys sep)
  then have "Join (y # ys) sep \<noteq> []" by (intro Join_nonempty) auto
  with 3 show ?case by simp
qed simp_all

subsection \<open>Integer lists as text\<close>

lemma parseParts_Itoa:
  assumes "\<forall>x \<in> set xs. inIntRange x" "n > 0"
  shows "parseParts s n (map Itoa xs) = Inr xs"
  using assms
proof (induction xs)
  case (Cons x xs)
  have t: "TrimSpace (Itoa x) = Itoa x"
    using Itoa_nonempty Itoa_bytes by (rule TrimSpace_decimal)
  from Cons.prems have "Atoi (Itoa x) = Inr x"
    by (intro Atoi_Itoa) (simp_all add: inIntRange_def)
  with Cons t show ?case by (simp add: Itoa_nonempty)
qed simp

lemma comma_not_decimal: "\<not> decimalByte (CHR '','')"
  by (simp add: decimalByte_def)

text \<open>
  What \<open>intSliceToString\<close> writes, \<open>parseIntSlice\<close> reads back; the empty list is written
  as the empty string.
\<close>

lemma parseIntSlice_intSliceToString:
  assumes "\<forall>x \<in> set xs. inIntRange x"
  shows "parseIntSlice (intSliceToString xs) = Inr xs"
proof (cases xs)
  case Nil
  then show ?thesis by (simp add: parseIntSlice_def intSliceToString_def TrimSpace_Nil)
next
  case (Cons y ys)
  let ?parts = "map Itoa xs"
  let ?s = "Join ?parts '',''"
  have ne: "?parts \<noteq> []" "\<forall>p \<in> set ?parts. p \<noteq> []"
    using Cons Itoa_nonempty by auto
  then have s_ne: "?s \<noteq> []" by (rule Join_nonempty)
  have "hd ?s = hd (hd ?parts)" using ne by (intro Join_hd) (auto simp: hd_map)
  moreover have "decimalByte (hd (hd ?parts))"
    using Cons Itoa_bytes[of y] Itoa_nonempty[of y] by (simp add: hd_in_set)
  ultimately have h: "\<not> spaceStart (hd ?s)" using decimalByte_not_space by simp
  have "last ?s = last (last ?parts)" using ne by (rule Join_last)
  moreover from Cons have "xs \<noteq> []" by simp
  then have "last ?parts = Itoa (last xs)" by (simp add: last_map)
  then have "decimalByte (last (last ?parts))"
    using Itoa_bytes[of "last xs"] Itoa_nonempty[of "last xs"] by simp
  ultimately have l: "\<not> spaceEnd (last ?s)" using decimalByte_not_space by simp
  have trim: "TrimSpace ?s = ?s" using s_ne h l by (rule TrimSpace_id)
  have "\<forall>p \<in> set ?parts. CHR '','' \<notin> set p"
    using Itoa_bytes comma_not_decimal by auto
  with ne have split: "Split ?s (CHR '','') = ?parts" by (intro Split_Join) auto
  have "length ?parts > 0" using Cons by simp
  with assms show ?thesis
    by (simp add: parseIntSlice_def intSliceToString_def trim s_ne split parseParts_Itoa)
qed

lemma TrimSpace_intSliceToString:
  "TrimSpace (intSliceToString xs) = intSliceToString xs"
proof (cases "xs = []")
  case True
  then show ?thesis by (simp add: intSliceToString_def TrimSpace_Nil)
next
  case False
  let ?parts = "map Itoa xs"
  let ?s = "Join ?parts '',''"
  have ne: "?parts \<noteq> []" "\<forall>p \<in> set ?parts. p \<noteq> []"
    using False Itoa_nonempty by auto
  then have s_ne: "?s \<noteq> []" by (rule Join_nonempty)
  have "\<forall>c \<in> set ?s. decimalByte c \<or> c = CHR '',''"
    using Itoa_bytes by (intro Join_bytes) auto
  moreover have "hd ?s \<in> set ?s" "last ?s \<in> set ?s" using s_ne by simp_all
  moreover have "\<not> spaceStart (CHR '','')" "\<not> spaceEnd (CHR '','')"
    by (simp_all add: spaceStart_def spaceEnd_def spaceEncodings_def)
  ultimately have "\<not> spaceStart (hd ?s)" "\<not> spaceEnd (last ?s)"
    using decimalByte_not_space by metis+
  with s_ne show ?thesis unfolding intSliceToString_def by (rule TrimSpace_id)
qed

lemma intSliceToString_no_newline: "CHR 0x0A \<notin> set (intSliceToString xs)"
proof -
  have "\<forall>c \<in> set (Join (map Itoa xs) '',''). decimalByte c \<or> c = CHR '',''"
    using Itoa_bytes by (intro Join_bytes) auto
  moreover have "\<not> decimalByte (CHR 0x0A)" by (simp add: decimalByte_def)
  ultimately show ?thesis unfolding intSliceToString_def by auto
qed

text \<open>The text \<open>SaveTensor\<close> writes to the metadata file.\<close>

lemma metadata_text_lines:
  assumes "CHR 0x0A \<notin> set n" "CHR 0x0A \<notin> set dt"
  shows "Split (''name:'' @ n @ [CHR 0x0A] @ ''shape:'' @ intSliceToString sh @ [CHR 0x0A]
                @ ''datatype:'' @ dt @ [CHR 0x0A] @ ''strides:'' @ intSliceToString st
                @ [CHR 0x0A]) (CHR 0x0A)
         = [''name:'' @ n, ''shape:'' @ intSliceToString sh, ''datatype:'' @ dt,
            ''strides:'' @ intSliceToString st, []]"
proof -
  have l1: "CHR 0x0A \<notin> set (''name:'' @ n)" using assms by simp
  have l2: "CHR 0x0A \<notin> set (''shape:'' @ intSliceToString sh)"
    using intSliceToString_no_newline by simp
  have l3: "CHR 0x0A \<notin> set (''datatype:'' @ dt)" using assms by simp
  have l4: "CHR 0x0A \<notin> set (''strides:'' @ intSliceToString st)"
    using intSliceToString_no_newline by simp
  have "Split ((''name:'' @ n) @ CHR 0x0A # (''shape:'' @ intSliceToString sh) @ CHR 0x0A
                # (''datatype:'' @ dt) @ CHR 0x0A # (''strides:'' @ intSliceToString st)
                @ CHR 0x0A # []) (CHR 0x0A)
         = [''name:'' @ n, ''shape:'' @ intSliceToString sh, ''datatype:'' @ dt,
            ''strides:'' @ intSliceToString st, []]"
    by (simp only: Split_append_sep[OF l1] Split_append_sep[OF l2] Split_append_sep[OF l3]
          Split_append_sep[OF l4] Split.simps)
  then show ?thesis by simp
qed

lemma metadata_keys:
  "SplitN2 (''name:'' @ v) (CHR '':'') = [''name'', v]"
  "SplitN2 (''shape:'' @ v) (CHR '':'') = [''shape'', v]"
  "SplitN2 (''datatype:'' @ v) (CHR '':'') = [''datatype'', v]"
  "SplitN2 (''strides:'' @ v) (CHR '':'') = [''strides'', v]"
  "TrimSpace ''name'' = ''name''" "TrimSpace ''shape'' = ''shape''"
  "TrimSpace ''datatype'' = ''datatype''" "TrimSpace ''strides'' = ''strides''"
  using SplitN2_key[of "CHR '':''" "''name''" v] SplitN2_key[of "CHR '':''" "''shape''" v]
    SplitN2_key[of "CHR '':''" "''datatype''" v] SplitN2_key[of "CHR '':''" "''strides''" v]
  by (simp_all add: TrimSpace_id spaceStart_def spaceEnd_def spaceEncodings_def)

lemma data_type_strings:
  assumes "dt = GetDataTypeString T"
  shows "CHR 0x0A \<notin> set dt" "TrimSpace dt = dt" "dt \<noteq> []" "\<exists>n. GetElementSize dt = Inr n"
  using assms
  by (cases T; simp add: DataTypeFloat32_def DataTypeFloat64_def DataTypeInt32_def
        DataTypeInt64_def GetElementSize_def TrimSpace_id spaceStart_def spaceEnd_def
        spaceEncodings_def)+

lemma trimLeftWith_bytes: "set s \<subseteq> set (trimLeftWith encs s) \<union> \<Union>(set ` set encs)"
proof (induction encs s rule: trimLeftWith.induct)
  case (1 encs s)
  show ?case
  proof (cases "leadingSpace encs s = 0")
    case True
    then show ?thesis by (simp add: trimLeftWith_id)
  next
    case False
    then obtain e where e: "e \<in> set encs" "take (length e) s = e"
      "leadingSpace encs s = length e"
      by (rule leadingSpace_pos)
    have t: "trimLeftWith encs s = trimLeftWith encs (drop (length e) s)"
      using False e(3) by (subst trimLeftWith.simps) simp
    have "set s = set (take (length e) s) \<union> set (drop (length e) s)"
      by (metis append_take_drop_id set_append)
    also have "\<dots> \<subseteq> set e \<union> (set (trimLeftWith encs (drop (length e) s)) \<union> \<Union>(set ` set encs))"
      using "1.IH"[OF False] e(2,3) by auto
    also have "\<dots> \<subseteq> set (trimLeftWith encs s) \<union> \<Union>(set ` set encs)"
      using e(1) t by auto
    finally show ?thesis .
  qed
qed

lemma TrimSpace_Nil_bytes:
  assumes "TrimSpace s = []"
  shows "set s \<subseteq> \<Union>(set ` set spaceEncodings)"
proof -
  from assms have "trimLeftWith (map rev spaceEncodings) (rev (trimLeftWith spaceEncodings s)) = []"
    by (simp add: TrimSpace_def)
  with trimLeftWith_bytes[of "rev (trimLeftWith spaceEncodings s)" "map rev spaceEncodings"]
  have "set (trimLeftWith spaceEncodings s) \<subseteq> \<Union>(set ` set spaceEncodings)"
    by auto
  with trimLeftWith_bytes[of s spaceEncodings] show ?thesis by blast
qed

lemma slash_not_space: "CHR ''/'' \<notin> \<Union>(set ` set spaceEncodings)"
  by (simp add: spaceEncodings_def)

lemma Base_JoinPath:
  assumes "CHR ''/'' \<notin> set file" "file \<noteq> []"
  shows "Base (JoinPath dir file) = file"
proof -
  have r: "rev (dir @ ''/'' @ file) = rev file @ CHR ''/'' # rev dir" by simp
  from assms have hd: "hd (rev file) \<noteq> CHR ''/''" "rev file \<noteq> []"
    by (simp_all add: hd_rev) (metis last_in_set)
  then have d: "dropWhile (\<lambda>c. c = CHR ''/'') (rev file @ CHR ''/'' # rev dir)
                  = rev file @ CHR ''/'' # rev dir"
    by (cases "rev file") simp_all
  have t: "takeWhile (\<lambda>c. c \<noteq> CHR ''/'') (rev file @ CHR ''/'' # rev dir) = rev file"
    using assms(1) by (auto simp: takeWhile_tail)
  show ?thesis
    unfolding Base_def JoinPath_def Let_def r d rev_rev_ident
    using assms(2) by (simp add: t del: rev_append)
qed

lemma fallback_name:
  assumes "TrimSpace n = []" "n \<noteq> []"
  shows "TrimSuffix (Base (JoinPath dir (n @ ''.meta''))) ''.meta'' = n"
proof -
  from TrimSpace_Nil_bytes[OF assms(1)] slash_not_space have "CHR ''/'' \<notin> set n" by blast
  then have "Base (JoinPath dir (n @ ''.meta'')) = n @ ''.meta''"
    by (intro Base_JoinPath) simp_all
  then show ?thesis by (simp add: TrimSuffix_def HasSuffix_def)
qed

lemma load_written_metadata:
  assumes written: "files s (JoinPath (dataDir s) (n @ ''.meta''))
                   = Some (''name:'' @ n @ [CHR 0x0A] @ ''shape:'' @ intSliceToString sh
                           @ [CHR 0x0A] @ ''datatype:'' @ dt @ [CHR 0x0A] @ ''strides:''
                           @ intSliceToString st @ [CHR 0x0A])"
    and name: "n \<noteq> []" "CHR 0x0A \<notin> set n"
    and dt: "dt = GetDataTypeString T"
    and range: "\<forall>d \<in> set sh. inIntRange d" "\<forall>d \<in> set st. inIntRange d"
  shows "LoadTensorMetadata s n
           = Inr \<lparr>Name = (if TrimSpace n = [] then n else TrimSpace n), Shape = sh,
                  DataType = dt, Strides = st\<rparr>"
proof -
  note dts = data_type_strings[OF dt]
  from dts(4) obtain sz where sz: "GetElementSize dt = Inr sz" by blast
  have lines: "Split (''name:'' @ n @ [CHR 0x0A] @ ''shape:'' @ intSliceToString sh @ [CHR 0x0A]
                @ ''datatype:'' @ dt @ [CHR 0x0A] @ ''strides:'' @ intSliceToString st
                @ [CHR 0x0A]) (CHR 0x0A)
         = [''name:'' @ n, ''shape:'' @ intSliceToString sh, ''datatype:'' @ dt,
            ''strides:'' @ intSliceToString st, []]"
    using name(2) dts(1) by (rule metadata_text_lines)
  have sh: "parseIntSlice (TrimSpace (intSliceToString sh)) = Inr sh"
    and st: "parseIntSlice (TrimSpace (intSliceToString st)) = Inr st"
    using range by (simp_all add: TrimSpace_intSliceToString parseIntSlice_intSliceToString)
  have parsed: "parseLines p \<lparr>fName = [], fShape = None, fDataType = [], fStrides = None\<rparr>
          [''name:'' @ n, ''shape:'' @ intSliceToString sh, ''datatype:'' @ dt,
            ''strides:'' @ intSliceToString st, []]
        = Inr \<lparr>fName = TrimSpace n, fShape = Some sh, fDataType = dt, fStrides = Some st\<rparr>" for p
    by (simp only: parseLines.simps metadata_keys Let_def dts(2) sh st sz list.case
          sum.case) simp
  have base: "TrimSuffix (Base (JoinPath (dataDir s) (n @ ''.meta''))) ''.meta'' = n"
    if "TrimSpace n = []"
    using that name(1) by (rule fallback_name)
  show ?thesis
    unfolding LoadTensorMetadata_def loadTensorMetadataInternal_def written option.case lines parsed
    using name(1) dts(3) base by simp
qed

lemma SaveTensor_written:
  assumes "SaveTensor T binaryWrite s t = (None, s', t')"
  shows "dataDir s' = dataDir s" "Name t' = Name t" "Shape t' = Shape t"
    "DataType t' = DataType t" "DataType t = GetDataTypeString T"
    "files s' (JoinPath (dataDir s) (Name t @ ''.meta''))
       = Some (''name:'' @ Name t @ [CHR 0x0A] @ ''shape:'' @ intSliceToString (Shape t)
               @ [CHR 0x0A] @ ''datatype:'' @ DataType t @ [CHR 0x0A] @ ''strides:''
               @ intSliceToString (Strides t') @ [CHR 0x0A])"
  using assms
  by (auto simp: SaveTensor_def Let_def JoinPath_def split: if_splits sum.splits prod.splits)



lemma length_leBytes: "length (leBytes n w) = n"
  by (simp add: leBytes_def)

text \<open>
  Claim C7, as amended. After a successful \<open>SaveTensor\<close> of a tensor whose name is not
  empty and has no line feed, \<open>LoadTensorMetadata\<close> of the tensor's name returns the
  shape, the data type and the strides of the saved tensor (\<open>SaveTensor\<close> replaces
  strides whose number is not the rank), and for the name the saved name without the
  white space at its ends: the saved name itself when it has none there, and also when
  it is white space only (the loader then takes the name of the file). The dimensions
  and strides are in the range of Go's \<open>int\<close>. The shape of rank 0 is written as the
  empty string and read back as the empty list.
\<close>

theorem SaveTensor_then_LoadTensorMetadata:
  assumes saved: "SaveTensor T binaryWrite s t = (None, s', t')"
    and name: "Name t \<noteq> []" "CHR 0x0A \<notin> set (Name t)"
    and range: "\<forall>d \<in> set (Shape t). inIntRange d" "\<forall>d \<in> set (Strides t'). inIntRange d"
  shows "LoadTensorMetadata s' (Name t)
           = Inr \<lparr>Name = (if TrimSpace (Name t) = [] then Name t else TrimSpace (Name t)),
                  Shape = Shape t', DataType = DataType t', Strides = Strides t'\<rparr>
       \<and> Name t' = Name t \<and> Shape t' = Shape t \<and> DataType t' = DataType t
       \<and> Strides t' = (if length (Strides t) \<noteq> length (Shape t)
                        then defaultStrides (Shape t) else Strides t)
       \<and> intSliceToString [] = [] \<and> parseIntSlice [] = Inr []"
proof -
  note w = SaveTensor_written[OF saved]
  have "files s' (JoinPath (dataDir s') (Name t @ ''.meta''))
       = Some (''name:'' @ Name t @ [CHR 0x0A] @ ''shape:'' @ intSliceToString (Shape t)
               @ [CHR 0x0A] @ ''datatype:'' @ DataType t @ [CHR 0x0A] @ ''strides:''
               @ intSliceToString (Strides t') @ [CHR 0x0A])"
    using w(1,6) by simp
  then have "LoadTensorMetadata s' (Name t)
           = Inr \<lparr>Name = (if TrimSpace (Name t) = [] then Name t else TrimSpace (Name t)),
                  Shape = Shape t, DataType = DataType t, Strides = Strides t'\<rparr>"
    using name w(5) range by (rule load_written_metadata)
  moreover have "Strides t' = (if length (Strides t) \<noteq> length (Shape t)
                        then defaultStrides (Shape t) else Strides t)"
    using saved
    by (auto simp: SaveTensor_def Let_def split: if_splits sum.splits prod.splits)
  moreover have "intSliceToString [] = []" "parseIntSlice [] = Inr []"
    by (simp_all add: intSliceToString_def parseIntSlice_def TrimSpace_Nil)
  ultimately show ?thesis using w(2,3,4) by simp
qed

text \<open>
  The claim as stated fails for a name with white space at an end: the tensor \<open>"w "\<close> is
  saved, and its metadata loads with the name \<open>"w"\<close>.
\<close>

theorem SaveTensor_trailing_space_counterexample:
  "(case SaveTensor TInt64 (leBytes 8)
           \<lparr>dataDir = ''d'', files = Map.empty, index = NewInMemoryIndex\<rparr>
           \<lparr>Name = ''w '', Shape = [2, 2], DataType = ''int64'', Strides = [2, 1],
              Data = [1, 2, 3, 4 :: int64]\<rparr> of
      (e, s', t') \<Rightarrow>
        e = None
        \<and> LoadTensorMetadata s' ''w ''
            = Inr \<lparr>Name = ''w'', Shape = [2, 2], DataType = ''int64'', Strides = [2, 1]\<rparr>)"
  by code_simp

theorem SaveTensor_then_LoadTensorMetadata_witness:
  "(case SaveTensor TInt64 (leBytes 8)
           \<lparr>dataDir = ''d'', files = Map.empty, index = NewInMemoryIndex\<rparr>
           \<lparr>Name = ''w'', Shape = [2, 2], DataType = ''int64'', Strides = [],
              Data = [1, 2, 3, 4 :: int64]\<rparr> of
      (e, s', t') \<Rightarrow>
        e = None
        \<and> LoadTensorMetadata s' ''w''
            = Inr \<lparr>Name = ''w'', Shape = [2, 2], DataType = ''int64'', Strides = [2, 1]\<rparr>)"
proof -
  let ?s = "\<lparr>dataDir = ''d'', files = Map.empty, index = NewInMemoryIndex\<rparr>"
  let ?t = "\<lparr>Name = ''w'', Shape = [2, 2], DataType = ''int64'', Strides = [],
              Data = [1, 2, 3, 4 :: int64]\<rparr>"
  obtain e s' t' where sv: "SaveTensor TInt64 (leBytes 8) ?s ?t = (e, s', t')"
    by (cases "SaveTensor TInt64 (leBytes 8) ?s ?t")
  have "fst (SaveTensor TInt64 (leBytes 8) ?s ?t) = None"
    by (simp add: SaveTensor_def Let_def GetElementSize_def DataTypeFloat32_def
          DataTypeFloat64_def DataTypeInt32_def DataTypeInt64_def length_leBytes wrapInt_def)
  with sv have e: "e = None" by simp
  have "Strides (snd (snd (SaveTensor TInt64 (leBytes 8) ?s ?t))) = [2, 1]"
    by (simp add: SaveTensor_def Let_def GetElementSize_def DataTypeFloat32_def
          DataTypeFloat64_def DataTypeInt32_def DataTypeInt64_def length_leBytes
          defaultStrides_def wrapInt_def)
  with sv have st: "Strides t' = [2, 1]" by simp
  have name: "Name ?t \<noteq> []" "CHR 0x0A \<notin> set (Name ?t)"
    by simp_all
  have trim: "TrimSpace ''w'' = ''w''"
    by (simp add: TrimSpace_id spaceStart_def spaceEnd_def spaceEncodings_def)
  have range: "\<forall>d \<in> set (Shape ?t). inIntRange d" "\<forall>d \<in> set (Strides t'). inIntRange d"
    by (simp_all add: st inIntRange_def)
  from SaveTensor_then_LoadTensorMetadata[OF sv[unfolded e] name range] st trim
  have "LoadTensorMetadata s' ''w''
          = Inr \<lparr>Name = ''w'', Shape = [2, 2], DataType = ''int64'', Strides = [2, 1]\<rparr>"
    by simp
  with sv e show ?thesis by simp
qed

text \<open>
  The two conditions on the name are needed: a tensor with the empty name, or with a
  line feed in its name, is saved, and its metadata does not load. A name of white space
  only is read back as it is.
\<close>

lemma SaveTensor_names_examples:
  "(case SaveTensor TInt64 (leBytes 8)
           \<lparr>dataDir = ''d'', files = Map.empty, index = NewInMemoryIndex\<rparr>
           \<lparr>Name = [], Shape = [], DataType = ''int64'', Strides = [],
              Data = [7 :: int64]\<rparr> of
      (e, s', t') \<Rightarrow> e = None \<and> isl (LoadTensorMetadata s' []))"
  "(case SaveTensor TInt64 (leBytes 8)
           \<lparr>dataDir = ''d'', files = Map.empty, index = NewInMemoryIndex\<rparr>
           \<lparr>Name = ''a'' @ [CHR 0x0A] @ ''b'', Shape = [], DataType = ''int64'', Strides = [],
              Data = [7 :: int64]\<rparr> of
      (e, s', t') \<Rightarrow> e = None \<and> isl (LoadTensorMetadata s' (''a'' @ [CHR 0x0A] @ ''b'')))"
  "(case SaveTensor TInt64 (leBytes 8)
           \<lparr>dataDir = ''d'', files = Map.empty, index = NewInMemoryIndex\<rparr>
           \<lparr>Name = '' '', Shape = [], DataType = ''int64'', Strides = [],
              Data = [7 :: int64]\<rparr> of
      (e, s', t') \<Rightarrow>
        e = None
        \<and> LoadTensorMetadata s' '' ''
            = Inr \<lparr>Name = '' '', Shape = [], DataType = ''int64'', Strides = []\<rparr>)"
  by code_simp+

subsection \<open>Loaded metadata has a supported data type\<close>

lemma parseLines_datatype_valid:
  "parseLines path tm ls = Inr tm'
     \<Longrightarrow> fDataType tm = [] \<or> (\<exists>k. GetElementSize (fDataType tm) = Inr k)
     \<Longrightarrow> fDataType tm' = [] \<or> (\<exists>k. GetElementSize (fDataType tm') = Inr k)"
proof (induction ls arbitrary: tm)
  case Nil
  then show ?case by simp
next
  case (Cons line rest)
  show ?case
  proof (cases "line = []")
    case True
    with Cons show ?thesis by simp
  next
    case False
    with Cons.prems(1) obtain tm1 where
      step: "parseLines path tm1 rest = Inr tm'"
      and inv: "fDataType tm1 = fDataType tm \<or> (\<exists>k. GetElementSize (fDataType tm1) = Inr k)"
      by (auto simp: Let_def split: list.splits if_splits sum.splits)
    from inv Cons.prems(2)
    have "fDataType tm1 = [] \<or> (\<exists>k. GetElementSize (fDataType tm1) = Inr k)" by auto
    with Cons.IH[OF step] show ?thesis by simp
  qed
qed

lemma LoadTensorMetadata_datatype:
  assumes "LoadTensorMetadata s name = Inr m"
  shows "DataType m = DataTypeFloat32 \<or> DataType m = DataTypeFloat64
         \<or> DataType m = DataTypeInt32 \<or> DataType m = DataTypeInt64"
proof -
  from assms obtain content tm' where
    p: "parseLines (JoinPath (dataDir s) (name @ ''.meta''))
          \<lparr>fName = [], fShape = None, fDataType = [], fStrides = None\<rparr>
          (Split content (CHR 0x0A)) = Inr tm'"
    and d: "fDataType tm' \<noteq> []" "DataType m = fDataType tm'"
    by (auto simp: LoadTensorMetadata_def loadTensorMetadataInternal_def Let_def
             split: option.splits sum.splits if_splits)
  from parseLines_datatype_valid[OF p] d obtain k where "GetElementSize (DataType m) = Inr k"
    by auto
  then show ?thesis by (auto simp: GetElementSize_def split: if_splits)
qed

subsection \<open>INSERT of literals\<close>

lemma parseLiterals_fails:
  "\<exists>lit \<in> set lits. isl (parse lit)
     \<Longrightarrow> \<exists>lit e. lit \<in> set lits \<and> parse lit = Inl e
              \<and> parseLiterals parse kind lits = Inl (ErrorParsingLiteral lit kind e)"
proof (induction lits)
  case Nil
  then show ?case by simp
next
  case (Cons sVal rest)
  show ?case
  proof (cases "parse sVal")
    case (Inl e)
    then show ?thesis by auto
  next
    case (Inr v)
    with Cons.prems have "\<exists>lit \<in> set rest. isl (parse lit)" by auto
    from Cons.IH[OF this] obtain lit e where
      "lit \<in> set rest" "parse lit = Inl e"
      "parseLiterals parse kind rest = Inl (ErrorParsingLiteral lit kind e)"
      by blast
    with Inr show ?thesis by auto
  qed
qed

lemma insertStrings_fails:
  assumes "\<exists>lit \<in> set lits. isl (parse lit)"
  shows "\<exists>lit e. lit \<in> set lits \<and> isl (parse lit)
           \<and> insertStrings T binaryWrite parse s metadata lits name
               = (Inl (ErrorParsingLiteral lit (DataType metadata) e), s)"
proof -
  from parseLiterals_fails[OF assms, of "DataType metadata"] obtain lit e where
    "lit \<in> set lits" "parse lit = Inl e"
    "parseLiterals parse (DataType metadata) lits
       = Inl (ErrorParsingLiteral lit (DataType metadata) e)"
    by blast
  then show ?thesis by (auto simp: insertStrings_def)
qed

lemma isl_parseIntElement: "isl (parseIntElement bits sVal :: numError + 'a::len word) = isl (ParseInt sVal bits)"
  by (simp add: parseIntElement_def split: sum.splits)

lemma data_type_strings_distinct:
  "DataTypeFloat32 \<noteq> DataTypeFloat64" "DataTypeFloat32 \<noteq> DataTypeInt32"
  "DataTypeFloat32 \<noteq> DataTypeInt64" "DataTypeFloat64 \<noteq> DataTypeInt32"
  "DataTypeFloat64 \<noteq> DataTypeInt64" "DataTypeInt32 \<noteq> DataTypeInt64"
  "DataTypeFloat64 \<noteq> DataTypeFloat32" "DataTypeInt32 \<noteq> DataTypeFloat32"
  "DataTypeInt64 \<noteq> DataTypeFloat32" "DataTypeInt32 \<noteq> DataTypeFloat64"
  "DataTypeInt64 \<noteq> DataTypeFloat64" "DataTypeInt64 \<noteq> DataTypeInt32"
  by (simp_all add: DataTypeFloat32_def DataTypeFloat64_def DataTypeInt32_def DataTypeInt64_def)

text \<open>
  Claim C10. For an INSERT of literals whose number is the total elements of the target
  tensor: if a literal does not parse in the tensor's kind, \<open>Execute\<close> returns the error
  of a literal that does not parse, and the storage is as it was: no file and no index
  entry has changed.
\<close>

theorem ExecuteInsertTensor_parse_error_leaves_storage:
  assumes names: "TensorNames query = tensorName # others"
    and raw: "RawData query = []"
    and meta: "LoadTensorMetadata s tensorName = Inr metadata"
    and count: "int (length (qData query)) = tNilaiTotalElemen (Shape metadata)"
    and bad: "\<exists>lit \<in> set (qData query).
                \<not> literalParses parseFloat32 parseFloat64 (DataType metadata) lit"
  shows "\<exists>lit e. lit \<in> set (qData query)
           \<and> \<not> literalParses parseFloat32 parseFloat64 (DataType metadata) lit
           \<and> ExecuteInsertTensor parseFloat32 parseFloat64 s query
               = (Inl (ErrorParsingLiteral lit (DataType metadata) e), s)"
proof -
  let ?dt = "DataType metadata"
  let ?expected = "(if length (Shape metadata) = 0 then 1
                    else (case zeroDimLoop 1 (Shape metadata) of
                            (n, isZeroDim) \<Rightarrow> if isZeroDim then 0 else n))"
  have expected: "?expected = tNilaiTotalElemen (Shape metadata)"
    by (rule selectionTotal_eq)
  from bad have nonempty: "length (qData query) \<noteq> 0" by auto
  have run: "ExecuteInsertTensor parseFloat32 parseFloat64 s query =
     (if ?dt = DataTypeFloat32
      then insertStrings TFloat32 (leBytes 4) parseFloat32 s metadata (qData query) tensorName
      else if ?dt = DataTypeFloat64
      then insertStrings TFloat64 (leBytes 8) parseFloat64 s metadata (qData query) tensorName
      else if ?dt = DataTypeInt32
      then insertStrings TInt32 (leBytes 4) (parseIntElement 32 :: string \<Rightarrow> numError + int32)
             s metadata (qData query) tensorName
      else if ?dt = DataTypeInt64
      then insertStrings TInt64 (leBytes 8) (parseIntElement 64 :: string \<Rightarrow> numError + int64)
             s metadata (qData query) tensorName
      else (Inl (UnsupportedInsertDataType ?dt (Name metadata)), s))"
    unfolding ExecuteInsertTensor_def names list.case meta sum.case Let_def expected raw
    using nonempty count by simp
  consider (f32) "?dt = DataTypeFloat32" | (f64) "?dt = DataTypeFloat64"
    | (i32) "?dt = DataTypeInt32" | (i64) "?dt = DataTypeInt64"
    using LoadTensorMetadata_datatype[OF meta] by blast
  then show ?thesis
  proof cases
    case f32
    with bad have "\<exists>lit \<in> set (qData query). isl (parseFloat32 lit)"
      by (simp add: literalParses_def)
    from insertStrings_fails[OF this, of TFloat32 "leBytes 4" s metadata tensorName]
    show ?thesis using f32 by (auto simp: run literalParses_def)
  next
    case f64
    with bad have "\<exists>lit \<in> set (qData query). isl (parseFloat64 lit)"
      by (simp add: literalParses_def data_type_strings_distinct)
    from insertStrings_fails[OF this, of TFloat64 "leBytes 8" s metadata tensorName]
    show ?thesis using f64 by (auto simp: run literalParses_def data_type_strings_distinct)
  next
    case i32
    with bad have "\<exists>lit \<in> set (qData query).
                     isl (parseIntElement 32 lit :: numError + int32)"
      by (simp add: literalParses_def data_type_strings_distinct isl_parseIntElement)
    from insertStrings_fails[OF this, of TInt32 "leBytes 4" s metadata tensorName]
    show ?thesis using i32
      by (auto simp: run literalParses_def data_type_strings_distinct isl_parseIntElement)
  next
    case i64
    with bad have "\<exists>lit \<in> set (qData query).
                     isl (parseIntElement 64 lit :: numError + int64)"
      by (simp add: literalParses_def data_type_strings_distinct isl_parseIntElement)
    from insertStrings_fails[OF this, of TInt64 "leBytes 8" s metadata tensorName]
    show ?thesis using i64
      by (auto simp: run literalParses_def data_type_strings_distinct isl_parseIntElement)
  qed
qed

theorem ExecuteInsertTensor_parse_error_witness:
  "\<exists>lit e. lit \<in> set [''1'', ''x'']
     \<and> ExecuteInsertTensor (\<lambda>sVal. Inl ErrSyntax) (\<lambda>sVal. Inl ErrSyntax)
          \<lparr>dataDir = ''d'',
           files = Map.empty(''d/t.meta'' \<mapsto>
                     ''name:t'' @ [CHR 0x0A] @ ''shape:2'' @ [CHR 0x0A] @ ''datatype:int32''
                     @ [CHR 0x0A] @ ''strides:1'' @ [CHR 0x0A]),
           index = NewInMemoryIndex\<rparr>
          \<lparr>qType = InsertTensorQuery, TensorNames = [''t''], qShape = [], qDataType = [],
             qData = [''1'', ''x''], RawData = [], Slices = [], qBatchSize = 0,
             MathOperator = [], InputTensorNames = [], OutputTensorName = [],
             ScalarOperand = [], Axis = None, FilterDataType = [], FilterNumDimensions = 0\<rparr>
        = (Inl (ErrorParsingLiteral lit ''int32'' e),
           \<lparr>dataDir = ''d'',
            files = Map.empty(''d/t.meta'' \<mapsto>
                      ''name:t'' @ [CHR 0x0A] @ ''shape:2'' @ [CHR 0x0A] @ ''datatype:int32''
                      @ [CHR 0x0A] @ ''strides:1'' @ [CHR 0x0A]),
            index = NewInMemoryIndex\<rparr>)"
proof -
  let ?s = "\<lparr>dataDir = ''d'',
           files = Map.empty(''d/t.meta'' \<mapsto>
                     ''name:t'' @ [CHR 0x0A] @ ''shape:2'' @ [CHR 0x0A] @ ''datatype:int32''
                     @ [CHR 0x0A] @ ''strides:1'' @ [CHR 0x0A]),
           index = NewInMemoryIndex\<rparr>"
  let ?q = "\<lparr>qType = InsertTensorQuery, TensorNames = [''t''], qShape = [], qDataType = [],
             qData = [''1'', ''x''], RawData = [], Slices = [], qBatchSize = 0,
             MathOperator = [], InputTensorNames = [], OutputTensorName = [],
             ScalarOperand = [], Axis = None, FilterDataType = [], FilterNumDimensions = 0\<rparr>"
  let ?m = "\<lparr>Name = ''t'', Shape = [2], DataType = ''int32'', Strides = [1]\<rparr>"
  have names: "TensorNames ?q = ''t'' # []" and raw: "RawData ?q = []" by simp_all
  have meta: "LoadTensorMetadata ?s ''t'' = Inr ?m" by code_simp
  have count: "int (length (qData ?q)) = tNilaiTotalElemen (Shape ?m)"
    by (simp add: tNilaiTotalElemen_def wrapInt_def)
  have "\<not> literalParses (\<lambda>sVal. Inl ErrSyntax) (\<lambda>sVal. Inl ErrSyntax) (DataType ?m) ''x''"
    by code_simp
  then have bad: "\<exists>lit \<in> set (qData ?q).
                \<not> literalParses (\<lambda>sVal. Inl ErrSyntax) (\<lambda>sVal. Inl ErrSyntax) (DataType ?m) lit"
    by simp
  from ExecuteInsertTensor_parse_error_leaves_storage[OF names raw meta count bad]
  show ?thesis by auto
qed

subsection \<open>CREATE\<close>












text \<open>
  Two creations the theorem covers. A metadata file whose load error quotes the text
  "failed to read metadata" is taken for a missing one and written over. A shape whose
  product wraps around to 0 gives a tensor without elements: strides of 0 and an empty
  data file.
\<close>

lemma ExecuteCreateTensor_examples:
  "(case ExecuteCreateTensor
           \<lparr>dataDir = ''d'', files = Map.empty(''d/t.meta'' \<mapsto> ''failed to read metadata''),
              index = NewInMemoryIndex\<rparr>
           \<lparr>qType = CreateTensorQuery, TensorNames = [''t''], qShape = [],
              qDataType = ''int32'', qData = [], RawData = [], Slices = [], qBatchSize = 0,
              MathOperator = [], InputTensorNames = [], OutputTensorName = [],
              ScalarOperand = [], Axis = None, FilterDataType = [],
              FilterNumDimensions = 0\<rparr> of
      (result, s') \<Rightarrow>
        result = Inr ''Tensor t created with type int32''
        \<and> files s' ''d/t.meta''
            = Some (''name:t'' @ [CHR 0x0A] @ ''shape:'' @ [CHR 0x0A]
                    @ ''datatype:int32'' @ [CHR 0x0A] @ ''strides:'' @ [CHR 0x0A])
        \<and> files s' ''d/t.data'' = Some (replicate 4 (CHR 0x00)))"
  "createdMetadata ''t''
     \<lparr>qType = CreateTensorQuery, TensorNames = [''t''], qShape = [4294967296, 4294967296],
        qDataType = ''int32'', qData = [], RawData = [], Slices = [], qBatchSize = 0,
        MathOperator = [], InputTensorNames = [], OutputTensorName = [],
        ScalarOperand = [], Axis = None, FilterDataType = [], FilterNumDimensions = 0\<rparr>
   = \<lparr>Name = ''t'', Shape = [4294967296, 4294967296], DataType = ''int32'',
       Strides = [0, 0]\<rparr>"
  "createdData
     \<lparr>qType = CreateTensorQuery, TensorNames = [''t''], qShape = [4294967296, 4294967296],
        qDataType = ''int32'', qData = [], RawData = [], Slices = [], qBatchSize = 0,
        MathOperator = [], InputTensorNames = [], OutputTensorName = [],
        ScalarOperand = [], Axis = None, FilterDataType = [], FilterNumDimensions = 0\<rparr>
   = []"
  by code_simp+

subsection \<open>The defaults of CREATE TENSOR\<close>

lemma trimLeftWith_keeps_last:
  "(\<forall>e \<in> set encs. c \<notin> set e) \<Longrightarrow> xs \<noteq> [] \<Longrightarrow> last xs = c
   \<Longrightarrow> trimLeftWith encs xs \<noteq> [] \<and> last (trimLeftWith encs xs) = c"
proof (induction encs xs rule: trimLeftWith.induct)
  case (1 encs s)
  show ?case
  proof (cases "leadingSpace encs s = 0")
    case True
    with 1 show ?thesis by (simp add: trimLeftWith_id)
  next
    case False
    then obtain e where e: "e \<in> set encs" "take (length e) s = e"
      "leadingSpace encs s = length e"
      by (rule leadingSpace_pos)
    from "1.prems" have "c \<in> set s" by (metis last_in_set)
    moreover from e(1) "1.prems"(1) have "c \<notin> set e" by simp
    ultimately have "length e < length s"
      using e(2) by (metis linorder_not_less take_all)
    then have rest: "drop (length e) s \<noteq> []" "last (drop (length e) s) = c"
      using "1.prems" by simp_all
    have "trimLeftWith encs s = trimLeftWith encs (drop (length e) s)"
      using False e(3) by (subst trimLeftWith.simps) simp
    moreover have "trimLeftWith encs (drop (length e) s) \<noteq> []
        \<and> last (trimLeftWith encs (drop (length e) s)) = c"
      using "1.IH" False "1.prems"(1) rest e(3) by simp
    ultimately show ?thesis by simp
  qed
qed

lemma TrimSpace_keeps_hd:
  assumes "\<forall>e \<in> set spaceEncodings. c \<notin> set e"
  shows "\<exists>r'. TrimSpace (c # r) = c # r'"
proof -
  have "hd (c # r) \<notin> set (map hd spaceEncodings)"
  proof
    assume "hd (c # r) \<in> set (map hd spaceEncodings)"
    then obtain e where "e \<in> set spaceEncodings" "c = hd e" by auto
    moreover from this spaceEncodings_nonempty(1) have "e \<noteq> []" by auto
    ultimately show False using assms by (metis hd_in_set)
  qed
  then have l: "trimLeftWith spaceEncodings (c # r) = c # r"
    using spaceEncodings_nonempty
    by (intro trimLeftWith_id leadingSpace_none) simp_all
  have "\<forall>e \<in> set (map rev spaceEncodings). c \<notin> set e"
    using assms by auto
  then have "trimLeftWith (map rev spaceEncodings) (rev (c # r)) \<noteq> []
      \<and> last (trimLeftWith (map rev spaceEncodings) (rev (c # r))) = c"
    by (rule trimLeftWith_keeps_last) simp_all
  then obtain ys where ys: "trimLeftWith (map rev spaceEncodings) (rev (c # r)) = ys"
    "ys \<noteq> []" "last ys = c"
    by blast
  then have "rev ys = c # rev (butlast ys)"
    by (metis append_butlast_last_id rev.simps(2) rev_append rev_rev_ident append_Cons append_Nil)
  moreover have "TrimSpace (c # r) = rev ys"
    unfolding TrimSpace_def l using ys(1) by simp
  ultimately have "TrimSpace (c # r) = c # rev (butlast ys)"
    by (simp only:)
  then show ?thesis ..
qed

lemma Contains_take: "take (length substr) b = substr \<Longrightarrow> Contains b substr"
  by (cases b) auto

lemma Contains_append: "Contains b substr \<Longrightarrow> Contains (a @ b) substr"
  by (induction a) auto

lemma typeClause_keyword:
  assumes "typeClause r = Some g2" "g2 \<noteq> []"
  shows "Contains (ToLower r) ''type''"
proof -
  define r1 where "r1 = dropWhile reSpace r"
  from assms have "ToLower (take 4 r1) = ''type''"
    by (auto simp: typeClause_def Let_def r1_def split: if_splits prod.splits)
  moreover have "length ''type'' = 4"
    by simp
  then have "take (length ''type'') (ToLower r1) = ToLower (take 4 r1)"
    by (simp only: ToLower_def take_map)
  ultimately have "take (length ''type'') (ToLower r1) = ''type''"
    by (simp only:)
  then have "Contains (ToLower r1) ''type''"
    by (rule Contains_take)
  then have "Contains (ToLower (takeWhile reSpace r) @ ToLower r1) ''type''"
    by (rule Contains_append)
  then show ?thesis
    by (simp add: ToLower_def r1_def flip: map_append)
qed

lemma lazyGroup_Some:
  "lazyGroup taken s = Some (g1, g2)
   \<Longrightarrow> \<exists>k. g1 = taken @ take k s \<and> typeClause (drop k s) = Some g2
           \<and> (typeClause s = None \<longrightarrow> 0 < k \<and> s \<noteq> [])"
proof (induction s arbitrary: taken)
  case Nil
  then show ?case by (auto split: option.splits)
next
  case (Cons c cs)
  show ?case
  proof (cases "typeClause (c # cs)")
    case (Some g)
    with Cons.prems have "g1 = taken" "g = g2" by simp_all
    with Some show ?thesis by (intro exI[of _ 0]) simp
  next
    case None
    with Cons.prems have "lazyGroup (taken @ [c]) cs = Some (g1, g2)"
      by (simp split: if_splits)
    from Cons.IH[OF this] obtain k where "g1 = (taken @ [c]) @ take k cs"
      "typeClause (drop k cs) = Some g2"
      by blast
    then show ?thesis by (intro exI[of _ "Suc k"]) simp
  qed
qed

lemma createRegex_keyword:
  assumes "createRegex s = Some (g1, g2)" "g2 \<noteq> []"
  shows "Contains (ToLower s) ''type''"
proof -
  from assms(1) obtain k where "typeClause (drop k (dropWhile reSpace s)) = Some g2"
    unfolding createRegex_def by (blast dest: lazyGroup_Some)
  from this assms(2) have "Contains (ToLower (drop k (dropWhile reSpace s))) ''type''"
    by (rule typeClause_keyword)
  then have "Contains (ToLower (takeWhile reSpace s @ take k (dropWhile reSpace s))
      @ ToLower (drop k (dropWhile reSpace s))) ''type''"
    by (rule Contains_append)
  then show ?thesis
    by (simp add: ToLower_def flip: map_append)
qed

lemma keyword_byte:
  assumes "c = CHR ''t'' \<or> c = CHR ''T''"
  shows "\<forall>e \<in> set spaceEncodings. c \<notin> set e" "c \<noteq> CHR '' ''" "c \<noteq> CHR '',''"
    "digitValue c = None" "c \<noteq> CHR ''-''" "c \<noteq> CHR ''+''" "\<not> reSpace c"
  using assms by (auto simp: spaceEncodings_def digitValue_def reSpace_def)

lemma Split_Cons_other: "c \<noteq> sep \<Longrightarrow> \<exists>w ws. Split (c # cs) sep = (c # w) # ws"
  by (cases "Split cs sep") auto

lemma Atoi_keyword:
  assumes "c = CHR ''t'' \<or> c = CHR ''T''"
  shows "Atoi (c # r) = Inl ErrSyntax"
  using keyword_byte(4,5,6)[OF assms] by (simp add: Atoi_def ParseInt_def)

lemma parseShape_keyword:
  assumes "c = CHR ''t'' \<or> c = CHR ''T''"
  shows "isl (parseShape (TrimSpace (c # r)))"
proof -
  from keyword_byte(1)[OF assms] obtain r' where t: "TrimSpace (c # r) = c # r'"
    using TrimSpace_keeps_hd by blast
  have "ReplaceAllSpaces (c # r') = c # ReplaceAllSpaces r'"
    using keyword_byte(2)[OF assms] by (simp add: ReplaceAllSpaces_def)
  moreover obtain w ws where "Split (c # ReplaceAllSpaces r') (CHR '','') = (c # w) # ws"
    using Split_Cons_other[OF keyword_byte(3)[OF assms]] by blast
  ultimately have s: "Split (ReplaceAllSpaces (c # r')) (CHR '','') = (c # w) # ws"
    by simp
  from keyword_byte(1)[OF assms] obtain w' where w': "TrimSpace (c # w) = c # w'"
    using TrimSpace_keeps_hd by blast
  have "parseDims (c # r') ((c # w) # ws) = Inl (InvalidDimension (c # w') (c # r') ErrSyntax)"
    by (simp add: w' Atoi_keyword[OF assms])
  with s w' show ?thesis
    by (simp add: parseShape_def t)
qed

lemma lowerByte_keyword:
  assumes "lowerByte c = CHR ''t''"
  shows "c = CHR ''t'' \<or> c = CHR ''T''"
proof (cases "65 \<le> (of_char c :: nat) \<and> (of_char c :: nat) \<le> 90")
  case True
  with assms have "char_of ((of_char c :: nat) + 32) = CHR ''t''"
    by (simp add: lowerByte_def)
  then have "(of_char (char_of ((of_char c :: nat) + 32) :: char) :: nat) = of_char CHR ''t''"
    by simp
  then have "((of_char c :: nat) + 32) mod 256 = 116"
    by simp
  with True have "(of_char c :: nat) = 84"
    by simp
  then have "char_of (of_char c :: nat) = (char_of (84 :: nat) :: char)"
    by simp
  moreover have "(char_of (84 :: nat) :: char) = CHR ''T''"
    by code_simp
  ultimately show ?thesis by simp
next
  case False
  with assms show ?thesis by (simp add: lowerByte_def)
qed

lemma ToLower_keyword:
  assumes "ToLower x = ''type''"
  obtains c r where "x = c # r" "c = CHR ''t'' \<or> c = CHR ''T''"
proof -
  from assms obtain c r where x: "x = c # r" and "lowerByte c = CHR ''t''"
    by (auto simp: ToLower_def map_eq_Cons_conv)
  then show thesis using that lowerByte_keyword by blast
qed

lemma Join_Cons: "\<exists>t. Join (x # xs) sep = x @ t"
  by (cases xs) auto

lemma createRegex_Nil: "createRegex [] = Some ([], [])"
  by (simp add: createRegex_def typeClause_def)

lemma parseShape_Nil: "parseShape (TrimSpace []) = Inr []"
  by (simp add: parseShape_def TrimSpace_Nil)

text \<open>A query that parses: what the result is made of.\<close>

lemma ParseCreateTensor_Inr:
  assumes "ParseCreateTensor query = Inr q"
  shows "\<exists>shape dt. q = createQuery (Fields (TrimSpace query) ! 2) shape dt
     \<and> (case createRegex (remainingText query) of
          Some (g1, g2) \<Rightarrow>
            parseShape (TrimSpace g1) = Inr shape
            \<and> (if g2 \<noteq> [] then dt = ToLower (TrimSpace g2) else dt = DataTypeFloat64)
        | None \<Rightarrow>
            (if Contains (ToLower (remainingText query)) ''type'' then shape = []
             else dt = DataTypeFloat64))"
  using assms unfolding ParseCreateTensor_def remainingText_def Let_def
  by (auto split: if_splits option.splits sum.splits prod.splits
      simp: parseShape_def)

text \<open>
  Claim C9. A CREATE TENSOR query that parses gives a query of type CREATE for the name in its
  third field; when the text after the name has no \<open>type\<close> in it, the data type is
  \<open>float64\<close>; when nothing follows the name, or the keyword \<open>type\<close> follows it, the shape
  is empty (rank 0).
\<close>

theorem ParseCreateTensor_defaults:
  assumes "ParseCreateTensor query = Inr q"
  shows "qType q = CreateTensorQuery
     \<and> TensorNames q = [Fields (TrimSpace query) ! 2]
     \<and> (typeOmitted query \<longrightarrow> qDataType q = DataTypeFloat64)
     \<and> (shapeOmitted query \<longrightarrow> qShape q = [])"
proof -
  define rem where "rem = remainingText query"
  from ParseCreateTensor_Inr[OF assms] obtain shape dt
    where q: "q = createQuery (Fields (TrimSpace query) ! 2) shape dt"
      and r: "case createRegex rem of
          Some (g1, g2) \<Rightarrow>
            parseShape (TrimSpace g1) = Inr shape
            \<and> (if g2 \<noteq> [] then dt = ToLower (TrimSpace g2) else dt = DataTypeFloat64)
        | None \<Rightarrow>
            (if Contains (ToLower rem) ''type'' then shape = [] else dt = DataTypeFloat64)"
    unfolding rem_def by blast
  have dataType: "dt = DataTypeFloat64" if "typeOmitted query"
  proof (cases "createRegex rem")
    case None
    with r that show ?thesis by (simp add: typeOmitted_def rem_def)
  next
    case (Some g)
    obtain g1 g2 where g: "g = (g1, g2)" by (cases g)
    have "g2 = []"
    proof (rule ccontr)
      assume "g2 \<noteq> []"
      with Some g have "Contains (ToLower rem) ''type''"
        by (intro createRegex_keyword[of rem g1 g2]) simp_all
      with that show False by (simp add: typeOmitted_def rem_def)
    qed
    with r Some g show ?thesis by simp
  qed
  have shape: "shape = []" if "shapeOmitted query"
  proof (cases "length (Fields (TrimSpace query)) \<le> 3")
    case True
    then have "rem = []" by (simp add: rem_def remainingText_def)
    with r show ?thesis by (simp add: createRegex_Nil parseShape_Nil)
  next
    case False
    with that have low: "ToLower (Fields (TrimSpace query) ! 3) = ''type''"
      by (simp add: shapeOmitted_def)
    then obtain c w where w: "Fields (TrimSpace query) ! 3 = c # w"
      and c: "c = CHR ''t'' \<or> c = CHR ''T''"
      by (rule ToLower_keyword)
    from False have "3 < length (Fields (TrimSpace query))"
      by simp
    then have "drop 3 (Fields (TrimSpace query))
        = Fields (TrimSpace query) ! 3 # drop (Suc 3) (Fields (TrimSpace query))"
      by (rule Cons_nth_drop_Suc[symmetric])
    then obtain t where t: "rem = Fields (TrimSpace query) ! 3 @ t"
      using Join_Cons unfolding rem_def remainingText_def by metis
    have "take (length ''type'') (ToLower rem) = ''type''"
      using low by (simp add: t ToLower_def flip: low)
    then have has: "Contains (ToLower rem) ''type''"
      by (rule Contains_take)
    show ?thesis
    proof (cases "createRegex rem")
      case None
      with r has show ?thesis by simp
    next
      case (Some g)
      obtain g1 g2 where g: "g = (g1, g2)" by (cases g)
      from Some g have "lazyGroup [] (c # w @ t) = Some (g1, g2)"
        using keyword_byte(7)[OF c] by (simp add: createRegex_def t w)
      from lazyGroup_Some[OF this] obtain k where "g1 = [] @ take k (c # w @ t)"
        by blast
      then have k: "g1 = take k (c # w @ t)"
        by (simp only: append_Nil)
      from r Some g have ok: "parseShape (TrimSpace g1) = Inr shape" by simp
      show ?thesis
      proof (cases k)
        case 0
        with k ok show ?thesis by (simp add: parseShape_Nil)
      next
        case (Suc j)
        with k have "g1 = c # take j (w @ t)" by simp
        with parseShape_keyword[OF c, of "take j (w @ t)"] ok show ?thesis by simp
      qed
    qed
  qed
  from q dataType shape show ?thesis
    by (simp add: createQuery_def)
qed

theorem ParseCreateTensor_defaults_witness:
  "ParseCreateTensor ''CREATE TENSOR t'' = Inr (createQuery ''t'' [] DataTypeFloat64)
   \<and> typeOmitted ''CREATE TENSOR t''
   \<and> shapeOmitted ''CREATE TENSOR t''
   \<and> qDataType (createQuery ''t'' [] DataTypeFloat64) = DataTypeFloat64
   \<and> qShape (createQuery ''t'' [] DataTypeFloat64) = []"
proof -
  have p: "ParseCreateTensor ''CREATE TENSOR t'' = Inr (createQuery ''t'' [] DataTypeFloat64)"
    by code_simp
  have t: "typeOmitted ''CREATE TENSOR t''"
    by code_simp
  have s: "shapeOmitted ''CREATE TENSOR t''"
    by code_simp
  from ParseCreateTensor_defaults[OF p] p t s show ?thesis
    by simp
qed

text \<open>Queries that give the shape, the data type, or both.\<close>

lemma ParseCreateTensor_examples:
  "ParseCreateTensor ''create tensor m 2, 3'' = Inr (createQuery ''m'' [2, 3] DataTypeFloat64)"
  "ParseCreateTensor ''CREATE TENSOR s TYPE Int64'' = Inr (createQuery ''s'' [] DataTypeInt64)"
  "ParseCreateTensor ''CREATE TENSOR m 2,3 TYPE int32'' = Inr (createQuery ''m'' [2, 3] DataTypeInt32)"
  "isl (ParseCreateTensor ''CREATE TENSOR m 2,-3'')"
  "isl (ParseCreateTensor ''CREATE TENSOR m TYPE'')"
  by code_simp+

end
